theory Spec2Isabelle
  imports Complex_Main "HOL-Library.Sublist"
begin

section \<open>JavaScript values as the tool handlers see them\<close>

text \<open>
  The handlers of \<^verbatim>\<open>src/index.ts\<close> receive \<^verbatim>\<open>request.params.arguments\<close> as an
  untyped value (\<^verbatim>\<open>any\<close>). A Number is an IEEE binary64; the program only asks
  whether it is an integer, whether it is greater than zero, whether it is truthy, and
  for its text in a template literal, so a Number is modelled by the case it falls in:
  an integer-valued finite number (\<open>NInt 0\<close> is \<open>+0\<close>), negative zero, a finite
  number that is not an integer, NaN, and the two infinities.
\<close>

datatype jsnum = NInt int | NNegZero | NFrac rat | NNaN | NPosInf | NNegInf

text \<open>
  An object is the association list of its own properties (the first entry of a key is
  the one that is read), an array the list of its elements.
\<close>

datatype jsval =
    JUndefined
  | JNull
  | JBool bool
  | JNum jsnum
  | JStr string
  | JObj "(string \<times> jsval) list"
  | JArr "jsval list"

text \<open>The error codes of the protocol library that the program names.\<close>

datatype ErrorCode = InternalError | InvalidParams | MethodNotFound

text \<open>
  What a \<^verbatim>\<open>throw\<close> can carry: an \<^verbatim>\<open>McpError\<close> with the code and the message text
  given to its constructor, any other instance of \<^verbatim>\<open>Error\<close> with its message (a
  TypeError, the error of a failed child process), or a value that is no \<^verbatim>\<open>Error\<close>.
\<close>

datatype thrown = McpError ErrorCode string | Error string | NonError jsval

subsection \<open>Decimal text of an integer\<close>

definition digit_char :: "nat \<Rightarrow> char" where
  "digit_char d = ''0123456789'' ! d"

fun digits :: "nat \<Rightarrow> string" where
  "digits n = (if n < 10 then [digit_char n] else digits (n div 10) @ [digit_char (n mod 10)])"

declare digits.simps [simp del]

definition decimal :: "int \<Rightarrow> string" where
  "decimal i = (if i < 0 then CHR ''-'' # digits (nat (- i)) else digits (nat i))"

subsection \<open>typeof, property reads, truthiness\<close>

fun typeof :: "jsval \<Rightarrow> string" where
  "typeof JUndefined = ''undefined''"
| "typeof JNull = ''object''"
| "typeof (JBool _) = ''boolean''"
| "typeof (JNum _) = ''number''"
| "typeof (JStr _) = ''string''"
| "typeof (JObj _) = ''object''"
| "typeof (JArr _) = ''object''"

text \<open>
  \<^verbatim>\<open>v.k\<close>: reading a property of \<^verbatim>\<open>null\<close> or \<^verbatim>\<open>undefined\<close> throws a TypeError;
  an object yields its own property or \<^verbatim>\<open>undefined\<close>; an array has its indices and
  \<^verbatim>\<open>length\<close>, a string its \<^verbatim>\<open>length\<close> and its characters; numbers and booleans
  have no own properties. Inherited properties are methods of the prototypes; none of
  them has one of the names the program reads (title, body, base, head, draft, state,
  limit, number), and they are left out.
\<close>

definition type_error :: "string \<Rightarrow> string \<Rightarrow> thrown" where
  "type_error what k =
     Error (''Cannot read properties of '' @ what @ '' (reading '' @ [CHR 0x27] @ k @ [CHR 0x27] @ '')'')"

fun get_prop :: "jsval \<Rightarrow> string \<Rightarrow> thrown + jsval" where
  "get_prop JUndefined k = Inl (type_error ''undefined'' k)"
| "get_prop JNull k = Inl (type_error ''null'' k)"
| "get_prop (JBool _) k = Inr JUndefined"
| "get_prop (JNum _) k = Inr JUndefined"
| "get_prop (JStr s) k =
     (if k = ''length'' then Inr (JNum (NInt (int (length s))))
      else case map_of (zip (map digits [0..<length s]) s) k of
             None \<Rightarrow> Inr JUndefined
           | Some c \<Rightarrow> Inr (JStr [c]))"
| "get_prop (JObj kvs) k =
     (case map_of kvs k of None \<Rightarrow> Inr JUndefined | Some v \<Rightarrow> Inr v)"
| "get_prop (JArr xs) k =
     (if k = ''length'' then Inr (JNum (NInt (int (length xs))))
      else case map_of (zip (map digits [0..<length xs]) xs) k of
             None \<Rightarrow> Inr JUndefined
           | Some v \<Rightarrow> Inr v)"

text \<open>\<^verbatim>\<open>Number.isInteger(v)\<close>: false for every value that is not a Number.\<close>

fun Number_isInteger :: "jsval \<Rightarrow> bool" where
  "Number_isInteger (JNum (NInt _)) = True"
| "Number_isInteger (JNum NNegZero) = True"
| "Number_isInteger _ = False"

text \<open>
  \<^verbatim>\<open>v > 0\<close> for a Number \<^verbatim>\<open>v\<close>. The program evaluates the comparison only behind
  \<^verbatim>\<open>typeof v === 'number' &&\<close>, so the conversions of other operands are never run.
\<close>

fun greater_than_zero :: "jsval \<Rightarrow> bool" where
  "greater_than_zero (JNum (NInt i)) = (0 < i)"
| "greater_than_zero (JNum (NFrac r)) = (0 < r)"
| "greater_than_zero (JNum NPosInf) = True"
| "greater_than_zero _ = False"

text \<open>\<^verbatim>\<open>if (v)\<close>: ToBoolean.\<close>

fun truthy :: "jsval \<Rightarrow> bool" where
  "truthy JUndefined = False"
| "truthy JNull = False"
| "truthy (JBool b) = b"
| "truthy (JNum (NInt i)) = (i \<noteq> 0)"
| "truthy (JNum NNegZero) = False"
| "truthy (JNum NNaN) = False"
| "truthy (JNum _) = True"
| "truthy (JStr s) = (s \<noteq> [])"
| "truthy (JObj _) = True"
| "truthy (JArr _) = True"

text \<open>
  \<^verbatim>\<open>['open', 'closed', 'merged', 'all'].includes(v)\<close> compares with SameValueZero; the
  array holds strings only, so only an equal string is found.
\<close>

fun Array_includes :: "string list \<Rightarrow> jsval \<Rightarrow> bool" where
  "Array_includes xs (JStr s) = (s \<in> set xs)"
| "Array_includes xs _ = False"

subsection \<open>Short-circuit evaluation of expressions that may throw\<close>

text \<open>
  An operand is the value it evaluates to or what it throws. \<^verbatim>\<open>a && b\<close> and
  \<^verbatim>\<open>a || b\<close> evaluate \<^verbatim>\<open>b\<close> only when \<^verbatim>\<open>a\<close> does not decide the result.
\<close>

fun and_also :: "thrown + bool \<Rightarrow> thrown + bool \<Rightarrow> thrown + bool" where
  "and_also (Inl e) b = Inl e"
| "and_also (Inr False) b = Inr False"
| "and_also (Inr True) b = b"

fun or_else :: "thrown + bool \<Rightarrow> thrown + bool \<Rightarrow> thrown + bool" where
  "or_else (Inl e) b = Inl e"
| "or_else (Inr True) b = Inr True"
| "or_else (Inr False) b = b"

definition test :: "(jsval \<Rightarrow> bool) \<Rightarrow> thrown + jsval \<Rightarrow> thrown + bool" where
  "test p r = (case r of Inl e \<Rightarrow> Inl e | Inr v \<Rightarrow> Inr (p v))"

section \<open>The validators\<close>

definition isValidCreatePrArgs :: "jsval \<Rightarrow> thrown + bool" where
  "isValidCreatePrArgs args =
     and_also (Inr (typeof args = ''object''))
    (and_also (Inr (args \<noteq> JNull))
    (and_also (test (\<lambda>v. typeof v = ''string'') (get_prop args ''title''))
    (and_also (or_else (test (\<lambda>v. v = JUndefined) (get_prop args ''body''))
                       (test (\<lambda>v. typeof v = ''string'') (get_prop args ''body'')))
    (and_also (or_else (test (\<lambda>v. v = JUndefined) (get_prop args ''base''))
                       (test (\<lambda>v. typeof v = ''string'') (get_prop args ''base'')))
    (and_also (or_else (test (\<lambda>v. v = JUndefined) (get_prop args ''head''))
                       (test (\<lambda>v. typeof v = ''string'') (get_prop args ''head'')))
              (or_else (test (\<lambda>v. v = JUndefined) (get_prop args ''draft''))
                       (test (\<lambda>v. typeof v = ''boolean'') (get_prop args ''draft''))))))))"

definition isValidListPrArgs :: "jsval \<Rightarrow> thrown + bool" where
  "isValidListPrArgs args =
     and_also (Inr (typeof args = ''object''))
    (and_also (Inr (args \<noteq> JNull))
    (and_also (or_else (test (\<lambda>v. v = JUndefined) (get_prop args ''state''))
                       (test (Array_includes [''open'', ''closed'', ''merged'', ''all''])
                             (get_prop args ''state'')))
    (and_also (or_else (test (\<lambda>v. v = JUndefined) (get_prop args ''base''))
                       (test (\<lambda>v. typeof v = ''string'') (get_prop args ''base'')))
              (or_else (test (\<lambda>v. v = JUndefined) (get_prop args ''limit''))
                       (test (\<lambda>v. typeof v = ''number'') (get_prop args ''limit''))))))"

definition isValidViewPrArgs :: "jsval \<Rightarrow> thrown + bool" where
  "isValidViewPrArgs args =
     and_also (Inr (typeof args = ''object''))
    (and_also (Inr (args \<noteq> JNull))
    (and_also (test (\<lambda>v. typeof v = ''number'') (get_prop args ''number''))
    (and_also (test Number_isInteger (get_prop args ''number''))
              (test greater_than_zero (get_prop args ''number'')))))"

definition isValidCommentPrArgs :: "jsval \<Rightarrow> thrown + bool" where
  "isValidCommentPrArgs args =
     and_also (Inr (typeof args = ''object''))
    (and_also (Inr (args \<noteq> JNull))
    (and_also (test (\<lambda>v. typeof v = ''number'') (get_prop args ''number''))
    (and_also (test Number_isInteger (get_prop args ''number''))
    (and_also (test greater_than_zero (get_prop args ''number''))
              (test (\<lambda>v. typeof v = ''string'') (get_prop args ''body''))))))"

section \<open>What the program is given from outside\<close>

text \<open>
  Three things the program uses are not part of it and are taken as parameters:
  \<^item> \<open>execSync\<close>: the child process run for a command line; it returns the captured
    standard output or throws (a non-zero exit and a failed spawn both throw an
    \<^verbatim>\<open>Error\<close>);
  \<^item> \<open>McpError_message\<close>: the \<^verbatim>\<open>message\<close> of an \<^verbatim>\<open>McpError\<close> built from a code and
    a message text, which the protocol library computes;
  \<^item> \<open>Number_dtoa\<close>: the text of a Number whose digits depend on its binary64 value
    (a non-integer, or an integer of magnitude \<open>2\<^sup>5\<^sup>3\<close> or more, which is printed with
    the fewest digits that read back as the same binary64, padded with zeros or with an
    exponent). An integer below \<open>2\<^sup>5\<^sup>3\<close> in magnitude is printed with all its decimal
    digits.
\<close>

record js_env =
  execSync :: "string \<Rightarrow> thrown + string"
  McpError_message :: "ErrorCode \<Rightarrow> string \<Rightarrow> string"
  Number_dtoa :: "jsnum \<Rightarrow> string"

subsection \<open>Template literals\<close>

fun Number_toString :: "js_env \<Rightarrow> jsnum \<Rightarrow> string" where
  "Number_toString env (NInt i) =
     (if \<bar>i\<bar> < 2 ^ 53 then decimal i else Number_dtoa env (NInt i))"
| "Number_toString env NNegZero = ''0''"
| "Number_toString env (NFrac r) = Number_dtoa env (NFrac r)"
| "Number_toString env NNaN = ''NaN''"
| "Number_toString env NPosInf = ''Infinity''"
| "Number_toString env NNegInf = ''-Infinity''"

fun join_comma :: "string list \<Rightarrow> string" where
  "join_comma [] = []"
| "join_comma [s] = s"
| "join_comma (s # t # ss) = s @ '','' @ join_comma (t # ss)"

text \<open>
  \<^verbatim>\<open>${v}\<close>: ToString. The program interpolates strings and Numbers only (the
  validators have run before); an object is printed as one without conversion
  properties of its own.
\<close>

fun ToString :: "js_env \<Rightarrow> jsval \<Rightarrow> string" where
  "ToString env JUndefined = ''undefined''"
| "ToString env JNull = ''null''"
| "ToString env (JBool b) = (if b then ''true'' else ''false'')"
| "ToString env (JNum x) = Number_toString env x"
| "ToString env (JStr s) = s"
| "ToString env (JObj kvs) = ''[object Object]''"
| "ToString env (JArr xs) =
     join_comma (map (\<lambda>v. if v = JUndefined \<or> v = JNull then [] else ToString env v) xs)"

section \<open>The command executor\<close>

definition executeGhCommand :: "js_env \<Rightarrow> string \<Rightarrow> thrown + string" where
  "executeGhCommand env command =
     (case execSync env (''gh '' @ command) of
        Inr out \<Rightarrow> Inr out
      | Inl (McpError c m) \<Rightarrow>
          Inl (McpError InternalError (''GitHub CLI error: '' @ McpError_message env c m))
      | Inl (Error m) \<Rightarrow> Inl (McpError InternalError (''GitHub CLI error: '' @ m))
      | Inl (NonError v) \<Rightarrow> Inl (NonError v))"

section \<open>The command builders\<close>

definition bindE :: "thrown + 'a \<Rightarrow> ('a \<Rightarrow> thrown + 'b) \<Rightarrow> thrown + 'b" where
  "bindE r f = (case r of Inl e \<Rightarrow> Inl e | Inr v \<Rightarrow> f v)"

text \<open>
  Each builder is the destructuring of the arguments and the assembly of the command
  text that follow the validator in the handler's \<^verbatim>\<open>case\<close> of the tool.
\<close>

definition create_pr_command :: "js_env \<Rightarrow> jsval \<Rightarrow> thrown + string" where
  "create_pr_command env args =
     bindE (get_prop args ''title'') (\<lambda>title.
     bindE (get_prop args ''body'') (\<lambda>body.
     bindE (get_prop args ''base'') (\<lambda>base.
     bindE (get_prop args ''head'') (\<lambda>head.
     bindE (get_prop args ''draft'') (\<lambda>draft.
       Inr (''pr create --title \"'' @ ToString env title @ ''\"''
            @ (if truthy body then '' --body \"'' @ ToString env body @ ''\"'' else [])
            @ (if truthy base then '' --base \"'' @ ToString env base @ ''\"'' else [])
            @ (if truthy head then '' --head \"'' @ ToString env head @ ''\"'' else [])
            @ (if truthy draft then '' --draft'' else [])))))))"

definition list_prs_command :: "js_env \<Rightarrow> jsval \<Rightarrow> thrown + string" where
  "list_prs_command env args =
     bindE (get_prop args ''state'') (\<lambda>state.
     bindE (get_prop args ''base'') (\<lambda>base.
     bindE (get_prop args ''limit'') (\<lambda>limit.
       Inr (''pr list''
            @ (if truthy state then '' --state '' @ ToString env state else [])
            @ (if truthy base then '' --base '' @ ToString env base else [])
            @ (if truthy limit then '' --limit '' @ ToString env limit else [])))))"

definition view_pr_command :: "js_env \<Rightarrow> jsval \<Rightarrow> thrown + string" where
  "view_pr_command env args =
     bindE (get_prop args ''number'') (\<lambda>number.
       Inr (''pr view '' @ ToString env number))"

definition comment_pr_command :: "js_env \<Rightarrow> jsval \<Rightarrow> thrown + string" where
  "comment_pr_command env args =
     bindE (get_prop args ''number'') (\<lambda>number.
     bindE (get_prop args ''body'') (\<lambda>body.
       Inr (''pr comment '' @ ToString env number @ '' --body \"'' @ ToString env body @ ''\"'')))"

section \<open>The tool dispatcher\<close>

record TextContent =
  "type" :: string
  "text" :: string

record ToolReply =
  content :: "TextContent list"
  isError :: "bool option"

record CallToolParams =
  name :: string
  arguments :: jsval

text \<open>
  The \<^verbatim>\<open>try\<close>/\<^verbatim>\<open>catch\<close> around the executor, which every \<^verbatim>\<open>case\<close> of the handler
  repeats: the output in a reply without \<^verbatim>\<open>isError\<close>, an \<^verbatim>\<open>McpError\<close> in a reply
  with \<^verbatim>\<open>isError: true\<close>, anything else thrown again.
\<close>

definition run_command :: "js_env \<Rightarrow> string \<Rightarrow> thrown + ToolReply" where
  "run_command env command =
     (case executeGhCommand env command of
        Inr result \<Rightarrow>
          Inr \<lparr>content = [\<lparr>type = ''text'', text = result\<rparr>], isError = None\<rparr>
      | Inl (McpError c m) \<Rightarrow>
          Inr \<lparr>content = [\<lparr>type = ''text'', text = McpError_message env c m\<rparr>],
               isError = Some True\<rparr>
      | Inl e \<Rightarrow> Inl e)"

text \<open>
  One \<^verbatim>\<open>case\<close> of the handler: validate, build, execute. The result is paired with
  the command lines handed to \<open>execSync\<close>, in order.
\<close>

definition tool_case ::
  "js_env \<Rightarrow> string \<Rightarrow> (jsval \<Rightarrow> thrown + bool) \<Rightarrow> (js_env \<Rightarrow> jsval \<Rightarrow> thrown + string)
     \<Rightarrow> jsval \<Rightarrow> string list \<times> (thrown + ToolReply)" where
  "tool_case env invalid_text validator builder args =
     (case validator args of
        Inl e \<Rightarrow> ([], Inl e)
      | Inr False \<Rightarrow> ([], Inl (McpError InvalidParams invalid_text))
      | Inr True \<Rightarrow>
          (case builder env args of
             Inl e \<Rightarrow> ([], Inl e)
           | Inr command \<Rightarrow> ([''gh '' @ command], run_command env command)))"

definition callTool :: "js_env \<Rightarrow> CallToolParams \<Rightarrow> string list \<times> (thrown + ToolReply)" where
  "callTool env params =
     (if name params = ''create_pr'' then
        tool_case env ''Invalid create_pr arguments'' isValidCreatePrArgs create_pr_command
          (arguments params)
      else if name params = ''list_prs'' then
        tool_case env ''Invalid list_prs arguments'' isValidListPrArgs list_prs_command
          (arguments params)
      else if name params = ''view_pr'' then
        tool_case env ''Invalid view_pr arguments'' isValidViewPrArgs view_pr_command
          (arguments params)
      else if name params = ''comment_pr'' then
        tool_case env ''Invalid comment_pr arguments'' isValidCommentPrArgs comment_pr_command
          (arguments params)
      else ([], Inl (McpError MethodNotFound (''Unknown tool: '' @ name params))))"

subsection \<open>Registration of the handler\<close>



section \<open>Notions used to state the properties\<close>

text \<open>A value that passes \<^verbatim>\<open>typeof v === 'object' && v !== null\<close>.\<close>

definition is_object :: "jsval \<Rightarrow> bool" where
  "is_object v = (typeof v = ''object'' \<and> v \<noteq> JNull)"

text \<open>What \<^verbatim>\<open>v.k\<close> evaluates to when the read does not throw.\<close>

definition field :: "jsval \<Rightarrow> string \<Rightarrow> jsval" where
  "field v k = (case get_prop v k of Inl e \<Rightarrow> JUndefined | Inr w \<Rightarrow> w)"

text \<open>The text of a string value (empty for any other value).\<close>

fun str_of :: "jsval \<Rightarrow> string" where
  "str_of (JStr s) = s"
| "str_of _ = []"

text \<open>
  An environment to run the model on: the child process always exits with a failure, the
  protocol library prefixes the message of an \<^verbatim>\<open>McpError\<close> with its numeric code.
\<close>

definition sdk_message :: "ErrorCode \<Rightarrow> string \<Rightarrow> string" where
  "sdk_message c m =
     ''MCP error '' @ (case c of InternalError \<Rightarrow> ''-32603'' | InvalidParams \<Rightarrow> ''-32602''
                        | MethodNotFound \<Rightarrow> ''-32601'') @ '': '' @ m"

definition failing_env :: js_env where
  "failing_env = \<lparr>execSync = (\<lambda>c. Inl (Error ''Command failed: exit status 1'')),
                   McpError_message = sdk_message, Number_dtoa = (\<lambda>x. ''1e+21'')\<rparr>"

text \<open>The number of positions of a text at which a (non-empty) pattern occurs.\<close>

fun occurrences :: "'a list \<Rightarrow> 'a list \<Rightarrow> nat" where
  "occurrences p [] = 0"
| "occurrences p (c # cs) = (if prefix p (c # cs) then 1 else 0) + occurrences p cs"

section \<open>Facts about the validators\<close>

lemma and_also_Inr: "and_also (Inr b) x = (if b then x else Inr False)"
  by (cases b) simp_all

lemma or_else_Inr: "or_else (Inr b) x = (if b then Inr True else x)"
  by (cases b) simp_all

lemma test_Inr: "test p (Inr v) = Inr (p v)"
  by (simp add: test_def)

lemma get_prop_field: "is_object v \<Longrightarrow> get_prop v k = Inr (field v k)"
  by (cases v) (auto simp: is_object_def field_def split: option.splits)

lemma typeof_string: "(typeof v = ''string'') = (\<exists>s. v = JStr s)"
  by (cases v) simp_all

lemma typeof_number: "(typeof v = ''number'') = (\<exists>x. v = JNum x)"
  by (cases v) simp_all

lemma typeof_boolean: "(typeof v = ''boolean'') = (\<exists>b. v = JBool b)"
  by (cases v) simp_all

lemma isValidCreatePrArgs_eq:
  "isValidCreatePrArgs args =
     Inr (is_object args \<and> typeof (field args ''title'') = ''string''
          \<and> (field args ''body'' = JUndefined \<or> typeof (field args ''body'') = ''string'')
          \<and> (field args ''base'' = JUndefined \<or> typeof (field args ''base'') = ''string'')
          \<and> (field args ''head'' = JUndefined \<or> typeof (field args ''head'') = ''string'')
          \<and> (field args ''draft'' = JUndefined \<or> typeof (field args ''draft'') = ''boolean''))"
proof (cases "is_object args")
  case True
  then show ?thesis
    by (simp add: isValidCreatePrArgs_def get_prop_field test_Inr and_also_Inr or_else_Inr)
       (simp add: is_object_def)
next
  case False
  then show ?thesis
    by (auto simp: isValidCreatePrArgs_def is_object_def and_also_Inr)
qed

lemma isValidListPrArgs_eq:
  "isValidListPrArgs args =
     Inr (is_object args
          \<and> (field args ''state'' = JUndefined
               \<or> Array_includes [''open'', ''closed'', ''merged'', ''all''] (field args ''state''))
          \<and> (field args ''base'' = JUndefined \<or> typeof (field args ''base'') = ''string'')
          \<and> (field args ''limit'' = JUndefined \<or> typeof (field args ''limit'') = ''number''))"
proof (cases "is_object args")
  case True
  then show ?thesis
    by (simp add: isValidListPrArgs_def get_prop_field test_Inr and_also_Inr or_else_Inr)
       (simp add: is_object_def)
next
  case False
  then show ?thesis
    by (auto simp: isValidListPrArgs_def is_object_def and_also_Inr)
qed

lemma isValidViewPrArgs_eq:
  "isValidViewPrArgs args =
     Inr (is_object args \<and> typeof (field args ''number'') = ''number''
          \<and> Number_isInteger (field args ''number'') \<and> greater_than_zero (field args ''number''))"
proof (cases "is_object args")
  case True
  then show ?thesis
    by (simp add: isValidViewPrArgs_def get_prop_field test_Inr and_also_Inr or_else_Inr)
       (simp add: is_object_def)
next
  case False
  then show ?thesis
    by (auto simp: isValidViewPrArgs_def is_object_def and_also_Inr)
qed

lemma isValidCommentPrArgs_eq:
  "isValidCommentPrArgs args =
     Inr (is_object args \<and> typeof (field args ''number'') = ''number''
          \<and> Number_isInteger (field args ''number'') \<and> greater_than_zero (field args ''number'')
          \<and> typeof (field args ''body'') = ''string'')"
proof (cases "is_object args")
  case True
  then show ?thesis
    by (simp add: isValidCommentPrArgs_def get_prop_field test_Inr and_also_Inr or_else_Inr)
       (simp add: is_object_def)
next
  case False
  then show ?thesis
    by (auto simp: isValidCommentPrArgs_def is_object_def and_also_Inr)
qed

lemma positive_integer:
  "(typeof v = ''number'' \<and> Number_isInteger v \<and> greater_than_zero v) = (\<exists>n. 0 < n \<and> v = JNum (NInt n))"
proof (cases v)
  case (JNum x)
  then show ?thesis by (cases x) auto
qed simp_all

lemma field_eq: "get_prop v k = Inr w \<Longrightarrow> field v k = w"
  by (simp add: field_def)

section \<open>Facts about the builders and the dispatcher\<close>

lemma bindE_Inr: "bindE (Inr v) f = f v"
  by (simp add: bindE_def)

lemma create_pr_command_fields:
  "is_object args \<Longrightarrow>
   create_pr_command env args =
     Inr (''pr create --title \"'' @ ToString env (field args ''title'') @ ''\"''
          @ (if truthy (field args ''body'')
             then '' --body \"'' @ ToString env (field args ''body'') @ ''\"'' else [])
          @ (if truthy (field args ''base'')
             then '' --base \"'' @ ToString env (field args ''base'') @ ''\"'' else [])
          @ (if truthy (field args ''head'')
             then '' --head \"'' @ ToString env (field args ''head'') @ ''\"'' else [])
          @ (if truthy (field args ''draft'') then '' --draft'' else []))"
  by (simp only: create_pr_command_def get_prop_field bindE_Inr)

lemma list_prs_command_fields:
  "is_object args \<Longrightarrow>
   list_prs_command env args =
     Inr (''pr list''
          @ (if truthy (field args ''state'')
             then '' --state '' @ ToString env (field args ''state'') else [])
          @ (if truthy (field args ''base'')
             then '' --base '' @ ToString env (field args ''base'') else [])
          @ (if truthy (field args ''limit'')
             then '' --limit '' @ ToString env (field args ''limit'') else []))"
  by (simp only: list_prs_command_def get_prop_field bindE_Inr)

lemma view_pr_command_fields:
  "is_object args \<Longrightarrow>
   view_pr_command env args = Inr (''pr view '' @ ToString env (field args ''number''))"
  by (simp only: view_pr_command_def get_prop_field bindE_Inr)

lemma comment_pr_command_fields:
  "is_object args \<Longrightarrow>
   comment_pr_command env args =
     Inr (''pr comment '' @ ToString env (field args ''number'')
          @ '' --body \"'' @ ToString env (field args ''body'') @ ''\"'')"
  by (simp only: comment_pr_command_def get_prop_field bindE_Inr)

lemma valid_create_object: "isValidCreatePrArgs args = Inr True \<Longrightarrow> is_object args"
  by (simp add: isValidCreatePrArgs_eq)

lemma valid_list_object: "isValidListPrArgs args = Inr True \<Longrightarrow> is_object args"
  by (simp add: isValidListPrArgs_eq)

lemma valid_view_object: "isValidViewPrArgs args = Inr True \<Longrightarrow> is_object args"
  by (simp add: isValidViewPrArgs_eq)

lemma valid_comment_object: "isValidCommentPrArgs args = Inr True \<Longrightarrow> is_object args"
  by (simp add: isValidCommentPrArgs_eq)

lemma tool_case_invalid:
  "validator args = Inr False \<Longrightarrow>
   tool_case env txt validator builder args = ([], Inl (McpError InvalidParams txt))"
  by (simp add: tool_case_def)

lemma run_command_failed:
  "execSync env (''gh '' @ command) = Inl (Error m) \<Longrightarrow>
   run_command env command =
     Inr \<lparr>content = [\<lparr>type = ''text'',
                       text = McpError_message env InternalError (''GitHub CLI error: '' @ m)\<rparr>],
          isError = Some True\<rparr>"
  by (simp add: run_command_def executeGhCommand_def)

lemma tool_case_valid:
  "validator args = Inr True \<Longrightarrow> builder env args = Inr command \<Longrightarrow>
   tool_case env txt validator builder args = ([''gh '' @ command], run_command env command)"
  by (simp add: tool_case_def)

lemma valid_builds:
  "isValidCreatePrArgs args = Inr True \<Longrightarrow> \<exists>cmd. create_pr_command env args = Inr cmd"
  "isValidListPrArgs args = Inr True \<Longrightarrow> \<exists>cmd. list_prs_command env args = Inr cmd"
  "isValidViewPrArgs args = Inr True \<Longrightarrow> \<exists>cmd. view_pr_command env args = Inr cmd"
  "isValidCommentPrArgs args = Inr True \<Longrightarrow> \<exists>cmd. comment_pr_command env args = Inr cmd"
  by (simp_all add: valid_create_object create_pr_command_fields
      valid_list_object list_prs_command_fields
      valid_view_object view_pr_command_fields
      valid_comment_object comment_pr_command_fields)

lemma tool_case_failed:
  assumes "validator args = Inr True" and "\<exists>cmd. builder env args = Inr cmd"
  shows "\<exists>cmd. fst (tool_case env txt validator builder args) = [''gh '' @ cmd]
       \<and> (\<forall>m. execSync env (''gh '' @ cmd) = Inl (Error m) \<longrightarrow>
            snd (tool_case env txt validator builder args) =
              Inr \<lparr>content = [\<lparr>type = ''text'',
                     text = McpError_message env InternalError (''GitHub CLI error: '' @ m)\<rparr>],
                   isError = Some True\<rparr>)"
proof -
  from assms(2) obtain cmd where c: "builder env args = Inr cmd" ..
  have "tool_case env txt validator builder args = ([''gh '' @ cmd], run_command env cmd)"
    using assms(1) c by (rule tool_case_valid)
  then show ?thesis by (auto simp: run_command_failed)
qed

lemma sdk_message_embeds: "sublist s (sdk_message c s)"
  unfolding sdk_message_def by (simp only: append_assoc [symmetric] sublist_append_leftI)

lemma text_field:
  "v = JUndefined \<or> typeof v = ''string'' \<Longrightarrow>
   truthy v = (str_of v \<noteq> []) \<and> (truthy v \<longrightarrow> ToString env v = str_of v)"
  by (cases v) auto

lemma quoted_part:
  "v = JUndefined \<or> typeof v = ''string'' \<Longrightarrow>
   (if truthy v then a @ ToString env v @ b else []) = (if str_of v \<noteq> [] then a @ str_of v @ b else [])"
  by (cases v) auto

lemma plain_part:
  "v = JUndefined \<or> typeof v = ''string'' \<Longrightarrow>
   (if truthy v then a @ ToString env v else []) = (if str_of v \<noteq> [] then a @ str_of v else [])"
  by (cases v) auto

lemma create_pr_command_valid:
  assumes "isValidCreatePrArgs args = Inr True"
  shows "create_pr_command env args =
     Inr (''pr create --title \"'' @ str_of (field args ''title'') @ ''\"''
          @ (if str_of (field args ''body'') \<noteq> []
             then '' --body \"'' @ str_of (field args ''body'') @ ''\"'' else [])
          @ (if str_of (field args ''base'') \<noteq> []
             then '' --base \"'' @ str_of (field args ''base'') @ ''\"'' else [])
          @ (if str_of (field args ''head'') \<noteq> []
             then '' --head \"'' @ str_of (field args ''head'') @ ''\"'' else [])
          @ (if field args ''draft'' = JBool True then '' --draft'' else []))"
proof -
  from assms have obj: "is_object args"
    and t: "typeof (field args ''title'') = ''string''"
    and b: "field args ''body'' = JUndefined \<or> typeof (field args ''body'') = ''string''"
    and x: "field args ''base'' = JUndefined \<or> typeof (field args ''base'') = ''string''"
    and h: "field args ''head'' = JUndefined \<or> typeof (field args ''head'') = ''string''"
    and d: "field args ''draft'' = JUndefined \<or> typeof (field args ''draft'') = ''boolean''"
    by (simp_all add: isValidCreatePrArgs_eq)
  from t have t': "ToString env (field args ''title'') = str_of (field args ''title'')"
    by (auto simp: typeof_string)
  from d have d': "truthy (field args ''draft'') = (field args ''draft'' = JBool True)"
    by (auto simp: typeof_boolean)
  show ?thesis
    by (simp only: create_pr_command_fields [OF obj] t' d'
        quoted_part [OF b] quoted_part [OF x] quoted_part [OF h])
qed


lemma list_prs_command_valid:
  assumes "isValidListPrArgs args = Inr True"
  shows "list_prs_command env args =
     Inr (''pr list''
          @ (if str_of (field args ''state'') \<noteq> []
             then '' --state '' @ str_of (field args ''state'') else [])
          @ (if str_of (field args ''base'') \<noteq> []
             then '' --base '' @ str_of (field args ''base'') else [])
          @ (if truthy (field args ''limit'')
             then '' --limit '' @ ToString env (field args ''limit'') else []))"
proof -
  from assms have obj: "is_object args"
    and st: "field args ''state'' = JUndefined
             \<or> Array_includes [''open'', ''closed'', ''merged'', ''all''] (field args ''state'')"
    and x: "field args ''base'' = JUndefined \<or> typeof (field args ''base'') = ''string''"
    by (simp_all add: isValidListPrArgs_eq)
  from st have s: "field args ''state'' = JUndefined \<or> typeof (field args ''state'') = ''string''"
    by (cases "field args ''state''") auto
  show ?thesis
    by (simp only: list_prs_command_fields [OF obj] plain_part [OF s] plain_part [OF x])
qed

lemma valid_state:
  "isValidListPrArgs args = Inr True \<Longrightarrow>
   field args ''state'' \<in> {JUndefined, JStr ''open'', JStr ''closed'', JStr ''merged'', JStr ''all''}"
  by (cases "field args ''state''") (auto simp: isValidListPrArgs_eq)

lemma view_pr_command_valid:
  assumes "isValidViewPrArgs args = Inr True"
  shows "\<exists>n. 0 < n \<and> get_prop args ''number'' = Inr (JNum (NInt n))
           \<and> view_pr_command env args = Inr (''pr view '' @ Number_toString env (NInt n))"
proof -
  from assms have obj: "is_object args"
    and "typeof (field args ''number'') = ''number'' \<and> Number_isInteger (field args ''number'')
         \<and> greater_than_zero (field args ''number'')"
    by (simp_all add: isValidViewPrArgs_eq)
  then obtain n where n: "0 < n" "field args ''number'' = JNum (NInt n)"
    unfolding positive_integer by blast
  then show ?thesis
    by (simp add: view_pr_command_fields [OF obj] get_prop_field [OF obj])
qed

lemma comment_pr_command_valid:
  assumes "isValidCommentPrArgs args = Inr True"
  shows "\<exists>n b. 0 < n \<and> get_prop args ''number'' = Inr (JNum (NInt n))
           \<and> get_prop args ''body'' = Inr (JStr b)
           \<and> comment_pr_command env args =
               Inr (''pr comment '' @ Number_toString env (NInt n) @ '' --body \"'' @ b @ ''\"'')"
proof -
  from assms have obj: "is_object args"
    and "typeof (field args ''number'') = ''number'' \<and> Number_isInteger (field args ''number'')
         \<and> greater_than_zero (field args ''number'')"
    and "typeof (field args ''body'') = ''string''"
    by (simp_all add: isValidCommentPrArgs_eq)
  then obtain n b where n: "0 < n" "field args ''number'' = JNum (NInt n)"
    and b: "field args ''body'' = JStr b"
    unfolding positive_integer typeof_string by blast
  then show ?thesis
    by (simp add: comment_pr_command_fields [OF obj] get_prop_field [OF obj])
qed

lemma digits_small: "n < 10 \<Longrightarrow> digits n = [digit_char n]"
  by (simp add: digits.simps)

lemma sublist_parts:
  "sublist b (a @ b @ c @ d @ e)" "sublist c (a @ b @ c @ d @ e)" "sublist d (a @ b @ c @ d @ e)"
proof -
  show "sublist b (a @ b @ c @ d @ e)" by (rule sublist_appendI)
  have "sublist c ((a @ b) @ c @ (d @ e))" by (rule sublist_appendI)
  then show "sublist c (a @ b @ c @ d @ e)" by simp
  have "sublist d ((a @ b @ c) @ d @ e)" by (rule sublist_appendI)
  then show "sublist d (a @ b @ c @ d @ e)" by simp
qed

section \<open>Occurrences of a flag in a command\<close>

lemma prefix_separator: "c \<notin> set p \<Longrightarrow> prefix p (a @ c # b) = prefix p a"
  by (auto simp: prefix_append prefix_Cons)

lemma occurrences_separator:
  "c \<notin> set p \<Longrightarrow> p \<noteq> [] \<Longrightarrow> occurrences p (a @ c # b) = occurrences p a + occurrences p b"
proof (induction a)
  case Nil
  then show ?case by (cases p) auto
next
  case (Cons x a)
  have "prefix p ((x # a) @ c # b) = prefix p (x # a)"
    using Cons.prems(1) by (rule prefix_separator)
  with Cons show ?case by simp
qed

lemma occ_body_create:
  "occurrences ''--body'' t = 0 \<Longrightarrow> occurrences ''--body'' b = 0 \<Longrightarrow>
   occurrences ''--body'' x = 0 \<Longrightarrow> occurrences ''--body'' h = 0 \<Longrightarrow>
   occurrences ''--body''
     (''pr create --title \"'' @ t @ ''\"''
      @ (if B then '' --body \"'' @ b @ ''\"'' else [])
      @ (if X then '' --base \"'' @ x @ ''\"'' else [])
      @ (if H then '' --head \"'' @ h @ ''\"'' else [])
      @ (if D then '' --draft'' else [])) = (if B then 1 else 0)"
  by (simp add: occurrences_separator)


lemma occ_base_create:
  "occurrences ''--base'' t = 0 \<Longrightarrow> occurrences ''--base'' b = 0 \<Longrightarrow>
   occurrences ''--base'' x = 0 \<Longrightarrow> occurrences ''--base'' h = 0 \<Longrightarrow>
   occurrences ''--base''
     (''pr create --title \"'' @ t @ ''\"''
      @ (if B then '' --body \"'' @ b @ ''\"'' else [])
      @ (if X then '' --base \"'' @ x @ ''\"'' else [])
      @ (if H then '' --head \"'' @ h @ ''\"'' else [])
      @ (if D then '' --draft'' else [])) = (if X then 1 else 0)"
  by (simp add: occurrences_separator)

lemma occ_head_create:
  "occurrences ''--head'' t = 0 \<Longrightarrow> occurrences ''--head'' b = 0 \<Longrightarrow>
   occurrences ''--head'' x = 0 \<Longrightarrow> occurrences ''--head'' h = 0 \<Longrightarrow>
   occurrences ''--head''
     (''pr create --title \"'' @ t @ ''\"''
      @ (if B then '' --body \"'' @ b @ ''\"'' else [])
      @ (if X then '' --base \"'' @ x @ ''\"'' else [])
      @ (if H then '' --head \"'' @ h @ ''\"'' else [])
      @ (if D then '' --draft'' else [])) = (if H then 1 else 0)"
  by (simp add: occurrences_separator)

lemma occ_draft_create:
  "occurrences ''--draft'' t = 0 \<Longrightarrow> occurrences ''--draft'' b = 0 \<Longrightarrow>
   occurrences ''--draft'' x = 0 \<Longrightarrow> occurrences ''--draft'' h = 0 \<Longrightarrow>
   occurrences ''--draft''
     (''pr create --title \"'' @ t @ ''\"''
      @ (if B then '' --body \"'' @ b @ ''\"'' else [])
      @ (if X then '' --base \"'' @ x @ ''\"'' else [])
      @ (if H then '' --head \"'' @ h @ ''\"'' else [])
      @ (if D then '' --draft'' else [])) = (if D then 1 else 0)"
  by (simp add: occurrences_separator)

lemma occ_state_list:
  "occurrences ''--state'' s = 0 \<Longrightarrow> occurrences ''--state'' x = 0 \<Longrightarrow>
   occurrences ''--state'' l = 0 \<Longrightarrow>
   occurrences ''--state''
     (''pr list''
      @ (if S then '' --state '' @ s else [])
      @ (if X then '' --base '' @ x else [])
      @ (if L then '' --limit '' @ l else [])) = (if S then 1 else 0)"
  by (simp add: occurrences_separator)

lemma occ_base_list:
  "occurrences ''--base'' s = 0 \<Longrightarrow> occurrences ''--base'' x = 0 \<Longrightarrow>
   occurrences ''--base'' l = 0 \<Longrightarrow>
   occurrences ''--base''
     (''pr list''
      @ (if S then '' --state '' @ s else [])
      @ (if X then '' --base '' @ x else [])
      @ (if L then '' --limit '' @ l else [])) = (if X then 1 else 0)"
  by (simp add: occurrences_separator)

lemma occ_limit_list:
  "occurrences ''--limit'' s = 0 \<Longrightarrow> occurrences ''--limit'' x = 0 \<Longrightarrow>
   occurrences ''--limit'' l = 0 \<Longrightarrow>
   occurrences ''--limit''
     (''pr list''
      @ (if S then '' --state '' @ s else [])
      @ (if X then '' --base '' @ x else [])
      @ (if L then '' --limit '' @ l else [])) = (if L then 1 else 0)"
  by (simp add: occurrences_separator)

lemma state_no_flag:
  "Array_includes [''open'', ''closed'', ''merged'', ''all''] v \<Longrightarrow>
   occurrences ''--state'' (ToString env v) = 0 \<and> occurrences ''--base'' (ToString env v) = 0
   \<and> occurrences ''--limit'' (ToString env v) = 0"
  by (cases v) auto


lemma text_no_flag:
  assumes "v = JUndefined \<or> typeof v = ''string''"
    and "occurrences f (str_of v) = 0"
    and "f \<in> {''--body'', ''--base'', ''--head'', ''--draft'', ''--state'', ''--limit''}"
  shows "occurrences f (ToString env v) = 0"
  using assms by (cases v) auto

lemma digit_char_no_hyphen: "d < 10 \<Longrightarrow> digit_char d \<noteq> CHR ''-''"
proof -
  assume "d < 10"
  then have "d \<in> {0, 1, 2, 3, 4, 5, 6, 7, 8, 9}" by auto
  then show ?thesis by (auto simp: digit_char_def)
qed

lemma digits_no_hyphen: "CHR ''-'' \<notin> set (digits n)"
proof (induction n rule: digits.induct)
  case (1 n)
  show ?case
  proof (cases "n < 10")
    case True
    then show ?thesis
      using digit_char_no_hyphen [of n] by (auto simp: digits.simps [of n])
  next
    case False
    then show ?thesis
      using 1 digit_char_no_hyphen [of "n mod 10"] by (auto simp: digits.simps [of n])
  qed
qed

lemma occurrences_absent_head:
  "c \<notin> set s \<Longrightarrow> occurrences (c # q) s = 0"
  by (induction s) auto

lemma occurrences_decimal:
  assumes "f \<in> {''--state'', ''--base'', ''--limit''}"
  shows "occurrences f (decimal i) = 0"
proof -
  from assms obtain q where f: "f = CHR ''-'' # CHR ''-'' # q" by auto
  have d: "occurrences f (digits n) = 0" for n
    unfolding f by (rule occurrences_absent_head) (rule digits_no_hyphen)
  have "\<not> prefix f (CHR ''-'' # digits n)" for n
  proof
    assume "prefix f (CHR ''-'' # digits n)"
    then have "prefix (CHR ''-'' # q) (digits n)" by (simp add: f)
    then have "CHR ''-'' \<in> set (digits n)" by (auto simp: prefix_def)
    with digits_no_hyphen show False by blast
  qed
  with d show ?thesis by (simp add: decimal_def)
qed

lemma limit_text_clean:
  assumes ty: "v = JUndefined \<or> typeof v = ''number''"
    and f: "f \<in> {''--state'', ''--base'', ''--limit''}"
    and rt: "\<forall>x. v = JNum x \<and> (x \<in> range NFrac \<or> (\<exists>i. x = NInt i \<and> 2 ^ 53 \<le> \<bar>i\<bar>))
                \<longrightarrow> occurrences f (Number_dtoa env x) = 0"
  shows "occurrences f (ToString env v) = 0"
proof (cases v)
  case JUndefined
  with f show ?thesis by auto
next
  case (JNum x)
  show ?thesis
  proof (cases x)
    case (NInt i)
    show ?thesis
    proof (cases "\<bar>i\<bar> < 2 ^ 53")
      case True
      with JNum NInt show ?thesis by (simp add: occurrences_decimal [OF f])
    next
      case False
      with rt JNum NInt show ?thesis by simp
    qed
  next
    case (NFrac r)
    with rt JNum show ?thesis by simp
  qed (use f JNum in auto)
qed (use ty in auto)

lemma create_flag_count:
  assumes valid: "isValidCreatePrArgs args = Inr True"
    and f: "f \<in> {''--body'', ''--base'', ''--head'', ''--draft''}"
    and clean: "\<forall>k \<in> {''title'', ''body'', ''base'', ''head''}.
                  occurrences f (str_of (field args k)) = 0"
    and cmd: "create_pr_command env args = Inr cmd"
  shows "occurrences f cmd = (if truthy (field args (drop 2 f)) then 1 else 0)"
proof -
  from valid have obj: "is_object args"
    and ty: "typeof (field args ''title'') = ''string''"
      "field args ''body'' = JUndefined \<or> typeof (field args ''body'') = ''string''"
      "field args ''base'' = JUndefined \<or> typeof (field args ''base'') = ''string''"
      "field args ''head'' = JUndefined \<or> typeof (field args ''head'') = ''string''"
    by (simp_all add: isValidCreatePrArgs_eq)
  have no: "occurrences f (ToString env (field args k)) = 0"
    if "k \<in> {''title'', ''body'', ''base'', ''head''}" for k
  proof (rule text_no_flag)
    show "field args k = JUndefined \<or> typeof (field args k) = ''string''"
      using that ty by auto
    show "occurrences f (str_of (field args k)) = 0"
      by (rule bspec [OF clean that])
    show "f \<in> {''--body'', ''--base'', ''--head'', ''--draft'', ''--state'', ''--limit''}"
      using f by auto
  qed
  from cmd have eq: "cmd = ''pr create --title \"'' @ ToString env (field args ''title'') @ ''\"''
          @ (if truthy (field args ''body'')
             then '' --body \"'' @ ToString env (field args ''body'') @ ''\"'' else [])
          @ (if truthy (field args ''base'')
             then '' --base \"'' @ ToString env (field args ''base'') @ ''\"'' else [])
          @ (if truthy (field args ''head'')
             then '' --head \"'' @ ToString env (field args ''head'') @ ''\"'' else [])
          @ (if truthy (field args ''draft'') then '' --draft'' else [])"
    by (simp only: create_pr_command_fields [OF obj] sum.inject)
  from f consider (body) "f = ''--body''" | (base) "f = ''--base''"
    | (head) "f = ''--head''" | (draft) "f = ''--draft''"
    by auto
  then show ?thesis
  proof cases
    case body
    have "occurrences ''--body'' cmd = (if truthy (field args ''body'') then 1 else 0)"
      unfolding eq by (rule occ_body_create) (use no body in simp_all)
    with body show ?thesis by simp
  next
    case base
    have "occurrences ''--base'' cmd = (if truthy (field args ''base'') then 1 else 0)"
      unfolding eq by (rule occ_base_create) (use no base in simp_all)
    with base show ?thesis by simp
  next
    case head
    have "occurrences ''--head'' cmd = (if truthy (field args ''head'') then 1 else 0)"
      unfolding eq by (rule occ_head_create) (use no head in simp_all)
    with head show ?thesis by simp
  next
    case draft
    have "occurrences ''--draft'' cmd = (if truthy (field args ''draft'') then 1 else 0)"
      unfolding eq by (rule occ_draft_create) (use no draft in simp_all)
    with draft show ?thesis by simp
  qed
qed

lemma list_flag_count:
  assumes valid: "isValidListPrArgs args = Inr True"
    and f: "f \<in> {''--state'', ''--base'', ''--limit''}"
    and clean: "occurrences f (str_of (field args ''base'')) = 0"
    and rt: "\<forall>x. field args ''limit'' = JNum x
                 \<and> (x \<in> range NFrac \<or> (\<exists>i. x = NInt i \<and> 2 ^ 53 \<le> \<bar>i\<bar>))
                \<longrightarrow> occurrences f (Number_dtoa env x) = 0"
    and cmd: "list_prs_command env args = Inr cmd"
  shows "occurrences f cmd = (if truthy (field args (drop 2 f)) then 1 else 0)"
proof -
  from valid have obj: "is_object args"
    and st: "field args ''state'' = JUndefined
             \<or> Array_includes [''open'', ''closed'', ''merged'', ''all''] (field args ''state'')"
    and ty: "field args ''base'' = JUndefined \<or> typeof (field args ''base'') = ''string''"
    and tl: "field args ''limit'' = JUndefined \<or> typeof (field args ''limit'') = ''number''"
    by (simp_all add: isValidListPrArgs_eq)
  have s: "occurrences f (ToString env (field args ''state'')) = 0"
    using st f by (auto dest: state_no_flag [where env = env])
  have b: "occurrences f (ToString env (field args ''base'')) = 0"
  proof (rule text_no_flag)
    show "field args ''base'' = JUndefined \<or> typeof (field args ''base'') = ''string''"
      by (rule ty)
    show "occurrences f (str_of (field args ''base'')) = 0"
      by (rule clean)
    show "f \<in> {''--body'', ''--base'', ''--head'', ''--draft'', ''--state'', ''--limit''}"
      using f by auto
  qed
  have l: "occurrences f (ToString env (field args ''limit'')) = 0"
    using tl f rt by (rule limit_text_clean)
  from cmd have eq: "cmd = ''pr list''
          @ (if truthy (field args ''state'')
             then '' --state '' @ ToString env (field args ''state'') else [])
          @ (if truthy (field args ''base'')
             then '' --base '' @ ToString env (field args ''base'') else [])
          @ (if truthy (field args ''limit'')
             then '' --limit '' @ ToString env (field args ''limit'') else [])"
    by (simp only: list_prs_command_fields [OF obj] sum.inject)
  from f consider (state) "f = ''--state''" | (base) "f = ''--base''" | (limit) "f = ''--limit''"
    by auto
  then show ?thesis
  proof cases
    case state
    have "occurrences ''--state'' cmd = (if truthy (field args ''state'') then 1 else 0)"
      unfolding eq by (rule occ_state_list) (use s b l state in simp_all)
    with state show ?thesis by simp
  next
    case base
    have "occurrences ''--base'' cmd = (if truthy (field args ''base'') then 1 else 0)"
      unfolding eq by (rule occ_base_list) (use s b l base in simp_all)
    with base show ?thesis by simp
  next
    case limit
    have "occurrences ''--limit'' cmd = (if truthy (field args ''limit'') then 1 else 0)"
      unfolding eq by (rule occ_limit_list) (use s b l limit in simp_all)
    with limit show ?thesis by simp
  qed
qed

lemma limit_truthy:
  "v = JUndefined \<or> typeof v = ''number'' \<Longrightarrow>
   truthy v = (v \<notin> {JUndefined, JNum (NInt 0), JNum NNegZero, JNum NNaN})"
proof (cases v)
  case (JNum x)
  then show ?thesis by (cases x) auto
qed auto

lemma state_truthy:
  "isValidListPrArgs args = Inr True \<Longrightarrow>
   truthy (field args ''state'') = (field args ''state'' \<noteq> JUndefined)"
  using valid_state [of args] by auto

section \<open>The properties\<close>

text \<open>
  C1. When the arguments pass the validator of the tool, one command is handed to the
  child process, and if that fails with an \<^verbatim>\<open>Error\<close> of message \<open>m\<close> the handler
  returns a reply with \<^verbatim>\<open>isError: true\<close> whose only text block is the message of the
  \<^verbatim>\<open>McpError\<close> built from \<^verbatim>\<open>GitHub CLI error: m\<close>; nothing is thrown. When the
  validator answers false, the handler throws an \<^verbatim>\<open>McpError\<close> with code InvalidParams
  and runs no command. The text block contains \<open>m\<close> whenever the message of an
  \<^verbatim>\<open>McpError\<close> contains the text it was built from.
\<close>

theorem executor_failure_flagged_invalid_raised:
  "((name params = ''create_pr'' \<and> isValidCreatePrArgs (arguments params) = Inr True
     \<or> name params = ''list_prs'' \<and> isValidListPrArgs (arguments params) = Inr True
     \<or> name params = ''view_pr'' \<and> isValidViewPrArgs (arguments params) = Inr True
     \<or> name params = ''comment_pr'' \<and> isValidCommentPrArgs (arguments params) = Inr True)
    \<longrightarrow> (\<exists>cmd. fst (callTool env params) = [''gh '' @ cmd]
          \<and> (\<forall>m. execSync env (''gh '' @ cmd) = Inl (Error m) \<longrightarrow>
               snd (callTool env params) =
                 Inr \<lparr>content = [\<lparr>type = ''text'',
                        text = McpError_message env InternalError (''GitHub CLI error: '' @ m)\<rparr>],
                      isError = Some True\<rparr>)))
   \<and> ((name params = ''create_pr'' \<and> isValidCreatePrArgs (arguments params) = Inr False
     \<or> name params = ''list_prs'' \<and> isValidListPrArgs (arguments params) = Inr False
     \<or> name params = ''view_pr'' \<and> isValidViewPrArgs (arguments params) = Inr False
     \<or> name params = ''comment_pr'' \<and> isValidCommentPrArgs (arguments params) = Inr False)
    \<longrightarrow> callTool env params =
          ([], Inl (McpError InvalidParams (''Invalid '' @ name params @ '' arguments''))))
   \<and> ((\<forall>c s. sublist s (McpError_message env c s))
    \<longrightarrow> sublist m (McpError_message env InternalError (''GitHub CLI error: '' @ m)))"
proof (intro conjI impI)
  assume "name params = ''create_pr'' \<and> isValidCreatePrArgs (arguments params) = Inr True
     \<or> name params = ''list_prs'' \<and> isValidListPrArgs (arguments params) = Inr True
     \<or> name params = ''view_pr'' \<and> isValidViewPrArgs (arguments params) = Inr True
     \<or> name params = ''comment_pr'' \<and> isValidCommentPrArgs (arguments params) = Inr True"
  then consider
      (create) "name params = ''create_pr''" "isValidCreatePrArgs (arguments params) = Inr True"
    | (list) "name params = ''list_prs''" "isValidListPrArgs (arguments params) = Inr True"
    | (view) "name params = ''view_pr''" "isValidViewPrArgs (arguments params) = Inr True"
    | (comment) "name params = ''comment_pr''" "isValidCommentPrArgs (arguments params) = Inr True"
    by blast
  then show "\<exists>cmd. fst (callTool env params) = [''gh '' @ cmd]
          \<and> (\<forall>m. execSync env (''gh '' @ cmd) = Inl (Error m) \<longrightarrow>
               snd (callTool env params) =
                 Inr \<lparr>content = [\<lparr>type = ''text'',
                        text = McpError_message env InternalError (''GitHub CLI error: '' @ m)\<rparr>],
                      isError = Some True\<rparr>)"
  proof cases
    case create
    then show ?thesis
      using tool_case_failed [of isValidCreatePrArgs "arguments params" create_pr_command env, OF create(2) valid_builds(1) [OF create(2)]]
      by (simp add: callTool_def)
  next
    case list
    then show ?thesis
      using tool_case_failed [of isValidListPrArgs "arguments params" list_prs_command env, OF list(2) valid_builds(2) [OF list(2)]]
      by (simp add: callTool_def)
  next
    case view
    then show ?thesis
      using tool_case_failed [of isValidViewPrArgs "arguments params" view_pr_command env, OF view(2) valid_builds(3) [OF view(2)]]
      by (simp add: callTool_def)
  next
    case comment
    then show ?thesis
      using tool_case_failed [of isValidCommentPrArgs "arguments params" comment_pr_command env, OF comment(2) valid_builds(4) [OF comment(2)]]
      by (simp add: callTool_def)
  qed
next
  assume "name params = ''create_pr'' \<and> isValidCreatePrArgs (arguments params) = Inr False
     \<or> name params = ''list_prs'' \<and> isValidListPrArgs (arguments params) = Inr False
     \<or> name params = ''view_pr'' \<and> isValidViewPrArgs (arguments params) = Inr False
     \<or> name params = ''comment_pr'' \<and> isValidCommentPrArgs (arguments params) = Inr False"
  then show "callTool env params =
          ([], Inl (McpError InvalidParams (''Invalid '' @ name params @ '' arguments'')))"
    by (auto simp: callTool_def tool_case_invalid)
next
  assume "\<forall>c s. sublist s (McpError_message env c s)"
  then have "sublist (''GitHub CLI error: '' @ m)
               (McpError_message env InternalError (''GitHub CLI error: '' @ m))"
    by blast
  moreover have "sublist m (''GitHub CLI error: '' @ m)"
    by (rule sublist_append_leftI)
  ultimately show "sublist m (McpError_message env InternalError (''GitHub CLI error: '' @ m))"
    using sublist_order.order_trans by blast
qed

theorem executor_failure_flagged_invalid_raised_witness:
  "snd (callTool failing_env \<lparr>name = ''comment_pr'',
          arguments = JObj [(''number'', JNum (NInt 123)), (''body'', JStr ''LGTM!'')]\<rparr>)
     = Inr \<lparr>content = [\<lparr>type = ''text'',
              text = ''MCP error -32603: GitHub CLI error: Command failed: exit status 1''\<rparr>],
            isError = Some True\<rparr>
   \<and> callTool failing_env \<lparr>name = ''view_pr'', arguments = JObj [(''number'', JNum (NInt 0))]\<rparr>
     = ([], Inl (McpError InvalidParams ''Invalid view_pr arguments''))
   \<and> sublist ''Command failed: exit status 1''
       (McpError_message failing_env InternalError
          (''GitHub CLI error: '' @ ''Command failed: exit status 1''))"
proof -
  let ?p = "\<lparr>name = ''comment_pr'',
          arguments = JObj [(''number'', JNum (NInt 123)), (''body'', JStr ''LGTM!'')]\<rparr>"
  let ?q = "\<lparr>name = ''view_pr'', arguments = JObj [(''number'', JNum (NInt 0))]\<rparr>"
  note t = executor_failure_flagged_invalid_raised
  have valid: "isValidCommentPrArgs (arguments ?p) = Inr True"
    by (simp add: isValidCommentPrArgs_def test_Inr)
  have invalid: "isValidViewPrArgs (arguments ?q) = Inr False"
    by (simp add: isValidViewPrArgs_def test_Inr)
  from t [where params = ?p and env = failing_env and m = "[]"] valid
  obtain cmd where cmd: "fst (callTool failing_env ?p) = [''gh '' @ cmd]"
    and fl: "\<forall>m. execSync failing_env (''gh '' @ cmd) = Inl (Error m) \<longrightarrow>
               snd (callTool failing_env ?p) =
                 Inr \<lparr>content = [\<lparr>type = ''text'',
                        text = McpError_message failing_env InternalError (''GitHub CLI error: '' @ m)\<rparr>],
                      isError = Some True\<rparr>"
    by auto
  have "execSync failing_env (''gh '' @ cmd) = Inl (Error ''Command failed: exit status 1'')"
    by (simp add: failing_env_def)
  with fl have a: "snd (callTool failing_env ?p)
     = Inr \<lparr>content = [\<lparr>type = ''text'',
              text = ''MCP error -32603: GitHub CLI error: Command failed: exit status 1''\<rparr>],
            isError = Some True\<rparr>"
    by (simp add: failing_env_def sdk_message_def)
  have b: "callTool failing_env ?q = ([], Inl (McpError InvalidParams ''Invalid view_pr arguments''))"
    using t [where params = ?q and env = failing_env and m = "[]"] invalid by simp
  have c: "sublist ''Command failed: exit status 1''
       (McpError_message failing_env InternalError
          (''GitHub CLI error: '' @ ''Command failed: exit status 1''))"
    using t [where params = ?q and env = failing_env and m = "''Command failed: exit status 1''"]
      sdk_message_embeds
    by (simp add: failing_env_def)
  from a b c show ?thesis by blast
qed

text \<open>
  C2. As stated (every text field of a validated argument set stands between double
  quotes in the command) the property fails: an empty \<^verbatim>\<open>body\<close> of \<^verbatim>\<open>create_pr\<close> is
  a validated string, and the command built from it holds no pair of double quotes with
  nothing between them.
\<close>

theorem empty_body_not_quoted_counterexample:
  "isValidCreatePrArgs (JObj [(''title'', JStr ''t''), (''body'', JStr '''')]) = Inr True
   \<and> get_prop (JObj [(''title'', JStr ''t''), (''body'', JStr '''')]) ''body'' = Inr (JStr '''')
   \<and> create_pr_command failing_env (JObj [(''title'', JStr ''t''), (''body'', JStr '''')])
       = Inr ''pr create --title \"t\"''
   \<and> \<not> sublist (''\"'' @ '''' @ ''\"'') ''pr create --title \"t\"''"
proof -
  have "\<not> sublist (''\"'' @ '''' @ ''\"'') ''pr create --title \"t\"''"
    by (simp add: sublist_Cons_right)
  then show ?thesis
    by (simp add: isValidCreatePrArgs_def test_Inr create_pr_command_def bindE_Inr)
qed

text \<open>
  C2, amended. The text fields whose flag is written are put between double quotes as
  they are: the command starts with the title in quotes, holds every non-empty
  \<^verbatim>\<open>body\<close>, \<^verbatim>\<open>base\<close> and \<^verbatim>\<open>head\<close> of \<^verbatim>\<open>create_pr\<close> in quotes behind its flag, and
  ends with the quoted \<^verbatim>\<open>body\<close> of \<^verbatim>\<open>comment_pr\<close>. A title holding a double quote and
  shell metacharacters is copied unchanged.
\<close>

theorem quoted_fields_verbatim:
  "(isValidCreatePrArgs args = Inr True \<longrightarrow>
      (\<exists>cmd t. create_pr_command env args = Inr cmd \<and> get_prop args ''title'' = Inr (JStr t)
         \<and> prefix (''pr create --title \"'' @ t @ ''\"'') cmd
         \<and> (\<forall>s. get_prop args ''body'' = Inr (JStr s) \<and> s \<noteq> []
               \<longrightarrow> sublist ('' --body \"'' @ s @ ''\"'') cmd)
         \<and> (\<forall>s. get_prop args ''base'' = Inr (JStr s) \<and> s \<noteq> []
               \<longrightarrow> sublist ('' --base \"'' @ s @ ''\"'') cmd)
         \<and> (\<forall>s. get_prop args ''head'' = Inr (JStr s) \<and> s \<noteq> []
               \<longrightarrow> sublist ('' --head \"'' @ s @ ''\"'') cmd)))
   \<and> (isValidCommentPrArgs args = Inr True \<longrightarrow>
      (\<exists>cmd b. comment_pr_command env args = Inr cmd \<and> get_prop args ''body'' = Inr (JStr b)
         \<and> suffix ('' --body \"'' @ b @ ''\"'') cmd))
   \<and> isValidCreatePrArgs (JObj [(''title'', JStr ''a\"; echo $(id) #'')]) = Inr True
   \<and> create_pr_command env (JObj [(''title'', JStr ''a\"; echo $(id) #'')])
       = Inr ''pr create --title \"a\"; echo $(id) #\"''"
proof (intro conjI impI)
  assume valid: "isValidCreatePrArgs args = Inr True"
  define part where "part = (\<lambda>k. if str_of (field args k) \<noteq> []
                    then '' --'' @ k @ '' \"'' @ str_of (field args k) @ ''\"'' else [])"
  define P where "P = ''pr create --title \"'' @ str_of (field args ''title'') @ ''\"''"
  define D where "D = (if field args ''draft'' = JBool True then '' --draft'' else [])"
  define cmd where "cmd = P @ part ''body'' @ part ''base'' @ part ''head'' @ D"
  have obj: "is_object args" using valid by (rule valid_create_object)
  have cmd: "create_pr_command env args = Inr cmd"
    by (simp add: create_pr_command_valid [OF valid] cmd_def P_def part_def D_def)
  from valid obtain t where t: "field args ''title'' = JStr t"
    by (auto simp: isValidCreatePrArgs_eq typeof_string)
  then have gt: "get_prop args ''title'' = Inr (JStr t)"
    by (simp add: get_prop_field [OF obj])
  have "prefix P cmd"
    unfolding cmd_def by (rule prefixI) (rule refl)
  then have pre: "prefix (''pr create --title \"'' @ t @ ''\"'') cmd"
    by (simp only: P_def t str_of.simps)
  have frag: "part k = '' --'' @ k @ '' \"'' @ s @ ''\"''"
    if "get_prop args k = Inr (JStr s) \<and> s \<noteq> []" for k s
    using that by (simp add: part_def field_def)
  have body: "sublist ('' --body \"'' @ s @ ''\"'') cmd"
    if "get_prop args ''body'' = Inr (JStr s) \<and> s \<noteq> []" for s
  proof -
    have "sublist (part ''body'') cmd"
      unfolding cmd_def by (rule sublist_parts(1))
    then show ?thesis by (simp add: frag [OF that])
  qed
  have base: "sublist ('' --base \"'' @ s @ ''\"'') cmd"
    if "get_prop args ''base'' = Inr (JStr s) \<and> s \<noteq> []" for s
  proof -
    have "sublist (part ''base'') cmd"
      unfolding cmd_def by (rule sublist_parts(2))
    then show ?thesis by (simp add: frag [OF that])
  qed
  have head: "sublist ('' --head \"'' @ s @ ''\"'') cmd"
    if "get_prop args ''head'' = Inr (JStr s) \<and> s \<noteq> []" for s
  proof -
    have "sublist (part ''head'') cmd"
      unfolding cmd_def by (rule sublist_parts(3))
    then show ?thesis by (simp add: frag [OF that])
  qed
  from cmd gt pre body base head
  show "\<exists>cmd t. create_pr_command env args = Inr cmd \<and> get_prop args ''title'' = Inr (JStr t)
         \<and> prefix (''pr create --title \"'' @ t @ ''\"'') cmd
         \<and> (\<forall>s. get_prop args ''body'' = Inr (JStr s) \<and> s \<noteq> []
               \<longrightarrow> sublist ('' --body \"'' @ s @ ''\"'') cmd)
         \<and> (\<forall>s. get_prop args ''base'' = Inr (JStr s) \<and> s \<noteq> []
               \<longrightarrow> sublist ('' --base \"'' @ s @ ''\"'') cmd)
         \<and> (\<forall>s. get_prop args ''head'' = Inr (JStr s) \<and> s \<noteq> []
               \<longrightarrow> sublist ('' --head \"'' @ s @ ''\"'') cmd)"
    by blast
next
  assume valid: "isValidCommentPrArgs args = Inr True"
  from comment_pr_command_valid [OF valid, of env]
  obtain n b where "get_prop args ''body'' = Inr (JStr b)"
    and c: "comment_pr_command env args =
               Inr (''pr comment '' @ Number_toString env (NInt n) @ '' --body \"'' @ b @ ''\"'')"
    by blast
  moreover have "suffix ('' --body \"'' @ b @ ''\"'')
      (''pr comment '' @ Number_toString env (NInt n) @ '' --body \"'' @ b @ ''\"'')"
    by (rule suffixI [where zs = "''pr comment '' @ Number_toString env (NInt n)"]) simp
  ultimately show "\<exists>cmd b. comment_pr_command env args = Inr cmd
         \<and> get_prop args ''body'' = Inr (JStr b) \<and> suffix ('' --body \"'' @ b @ ''\"'') cmd"
    by blast
next
  show "isValidCreatePrArgs (JObj [(''title'', JStr ''a\"; echo $(id) #'')]) = Inr True"
    by (simp add: isValidCreatePrArgs_def test_Inr)
next
  show "create_pr_command env (JObj [(''title'', JStr ''a\"; echo $(id) #'')])
       = Inr ''pr create --title \"a\"; echo $(id) #\"''"
    by (simp add: create_pr_command_def bindE_Inr)
qed

theorem quoted_fields_verbatim_witness:
  "(\<exists>cmd. create_pr_command failing_env
             (JObj [(''title'', JStr ''T''), (''body'', JStr ''say \"hi\"''), (''base'', JStr ''main'')])
             = Inr cmd
          \<and> prefix ''pr create --title \"T\"'' cmd
          \<and> sublist '' --body \"say \"hi\"\"'' cmd
          \<and> sublist '' --base \"main\"'' cmd)
   \<and> (\<exists>cmd. comment_pr_command failing_env
             (JObj [(''number'', JNum (NInt 9)), (''body'', JStr ''$(id)'')]) = Inr cmd
          \<and> suffix '' --body \"$(id)\"'' cmd)"
proof -
  let ?a = "JObj [(''title'', JStr ''T''), (''body'', JStr ''say \"hi\"''), (''base'', JStr ''main'')]"
  let ?c = "JObj [(''number'', JNum (NInt 9)), (''body'', JStr ''$(id)'')]"
  have va: "isValidCreatePrArgs ?a = Inr True"
    by (simp add: isValidCreatePrArgs_def test_Inr)
  have vc: "isValidCommentPrArgs ?c = Inr True"
    by (simp add: isValidCommentPrArgs_def test_Inr)
  from quoted_fields_verbatim [where args = ?a and env = failing_env] va
  obtain cmd t where cmd: "create_pr_command failing_env ?a = Inr cmd"
    and t: "get_prop ?a ''title'' = Inr (JStr t)"
    and pre: "prefix (''pr create --title \"'' @ t @ ''\"'') cmd"
    and body: "\<forall>s. get_prop ?a ''body'' = Inr (JStr s) \<and> s \<noteq> []
                 \<longrightarrow> sublist ('' --body \"'' @ s @ ''\"'') cmd"
    and base: "\<forall>s. get_prop ?a ''base'' = Inr (JStr s) \<and> s \<noteq> []
                 \<longrightarrow> sublist ('' --base \"'' @ s @ ''\"'') cmd"
    by blast
  from t have "t = ''T''" by simp
  with pre have p: "prefix ''pr create --title \"T\"'' cmd" by simp
  from body [rule_format, of "''say \"hi\"''"] have b: "sublist '' --body \"say \"hi\"\"'' cmd"
    by simp
  from base [rule_format, of "''main''"] have x: "sublist '' --base \"main\"'' cmd"
    by simp
  from quoted_fields_verbatim [where args = ?c and env = failing_env] vc
  obtain cmd' b' where cmd': "comment_pr_command failing_env ?c = Inr cmd'"
    and b': "get_prop ?c ''body'' = Inr (JStr b')"
    and suf: "suffix ('' --body \"'' @ b' @ ''\"'') cmd'"
    by blast
  from b' have "b' = ''$(id)''" by simp
  with suf have s: "suffix '' --body \"$(id)\"'' cmd'" by simp
  from cmd p b x cmd' s show ?thesis by blast
qed

text \<open>
  C4. For validated arguments each builder yields its fixed beginning followed by the
  flags in the order body, base, head, draft (\<^verbatim>\<open>create_pr\<close>) and state, base, limit
  (\<^verbatim>\<open>list_prs\<close>); \<^verbatim>\<open>view_pr\<close> and \<^verbatim>\<open>comment_pr\<close> print the number, in decimal when
  its magnitude is below \<open>2\<^sup>5\<^sup>3\<close>. The four examples of the specification give exactly
  the commands it names.
\<close>

theorem command_templates:
  "(isValidCreatePrArgs args = Inr True \<longrightarrow>
      create_pr_command env args =
        Inr (''pr create --title \"'' @ str_of (field args ''title'') @ ''\"''
             @ (if str_of (field args ''body'') \<noteq> []
                then '' --body \"'' @ str_of (field args ''body'') @ ''\"'' else [])
             @ (if str_of (field args ''base'') \<noteq> []
                then '' --base \"'' @ str_of (field args ''base'') @ ''\"'' else [])
             @ (if str_of (field args ''head'') \<noteq> []
                then '' --head \"'' @ str_of (field args ''head'') @ ''\"'' else [])
             @ (if field args ''draft'' = JBool True then '' --draft'' else [])))
   \<and> (isValidListPrArgs args = Inr True \<longrightarrow>
      list_prs_command env args =
        Inr (''pr list''
             @ (if str_of (field args ''state'') \<noteq> []
                then '' --state '' @ str_of (field args ''state'') else [])
             @ (if str_of (field args ''base'') \<noteq> []
                then '' --base '' @ str_of (field args ''base'') else [])
             @ (if truthy (field args ''limit'')
                then '' --limit '' @ ToString env (field args ''limit'') else [])))
   \<and> (isValidViewPrArgs args = Inr True \<longrightarrow>
      (\<exists>n. 0 < n \<and> get_prop args ''number'' = Inr (JNum (NInt n))
         \<and> view_pr_command env args = Inr (''pr view '' @ Number_toString env (NInt n))))
   \<and> (isValidCommentPrArgs args = Inr True \<longrightarrow>
      (\<exists>n b. 0 < n \<and> get_prop args ''number'' = Inr (JNum (NInt n))
         \<and> get_prop args ''body'' = Inr (JStr b)
         \<and> comment_pr_command env args =
             Inr (''pr comment '' @ Number_toString env (NInt n) @ '' --body \"'' @ b @ ''\"'')))
   \<and> (\<bar>i\<bar> < 2 ^ 53 \<longrightarrow> Number_toString env (NInt i) = decimal i)
   \<and> isValidCreatePrArgs (JObj [(''title'', JStr ''Add X'')]) = Inr True
   \<and> create_pr_command env (JObj [(''title'', JStr ''Add X'')]) = Inr ''pr create --title \"Add X\"''
   \<and> isValidListPrArgs (JObj [(''state'', JStr ''open''), (''limit'', JNum (NInt 5))]) = Inr True
   \<and> list_prs_command env (JObj [(''state'', JStr ''open''), (''limit'', JNum (NInt 5))])
       = Inr ''pr list --state open --limit 5''
   \<and> isValidCommentPrArgs (JObj [(''number'', JNum (NInt 123)), (''body'', JStr ''LGTM!'')]) = Inr True
   \<and> comment_pr_command env (JObj [(''number'', JNum (NInt 123)), (''body'', JStr ''LGTM!'')])
       = Inr ''pr comment 123 --body \"LGTM!\"''"
proof -
  have ex1: "isValidCreatePrArgs (JObj [(''title'', JStr ''Add X'')]) = Inr True"
    by (simp add: isValidCreatePrArgs_def test_Inr)
  have ex2: "create_pr_command env (JObj [(''title'', JStr ''Add X'')])
             = Inr ''pr create --title \"Add X\"''"
    by (simp add: create_pr_command_def bindE_Inr)
  have ex3: "isValidListPrArgs (JObj [(''state'', JStr ''open''), (''limit'', JNum (NInt 5))]) = Inr True"
    by (simp add: isValidListPrArgs_def test_Inr)
  have ex4: "list_prs_command env (JObj [(''state'', JStr ''open''), (''limit'', JNum (NInt 5))])
       = Inr ''pr list --state open --limit 5''"
    by (simp add: list_prs_command_def bindE_Inr decimal_def digits_small digit_char_def)
  have ex5: "isValidCommentPrArgs (JObj [(''number'', JNum (NInt 123)), (''body'', JStr ''LGTM!'')]) = Inr True"
    by (simp add: isValidCommentPrArgs_def test_Inr)
  have ex6: "comment_pr_command env (JObj [(''number'', JNum (NInt 123)), (''body'', JStr ''LGTM!'')])
       = Inr ''pr comment 123 --body \"LGTM!\"''"
    by (simp add: comment_pr_command_def bindE_Inr decimal_def digits.simps digit_char_def)
  have num: "\<bar>i\<bar> < 2 ^ 53 \<longrightarrow> Number_toString env (NInt i) = decimal i"
    by simp
  show ?thesis
    using create_pr_command_valid [of args env] list_prs_command_valid [of args env]
      view_pr_command_valid [of args env] comment_pr_command_valid [of args env]
      ex1 ex2 ex3 ex4 ex5 ex6 num
    by blast
qed

theorem command_templates_witness:
  "create_pr_command failing_env
     (JObj [(''title'', JStr ''Add X''), (''body'', JStr ''Why''), (''draft'', JBool True)])
     = Inr ''pr create --title \"Add X\" --body \"Why\" --draft''
   \<and> list_prs_command failing_env (JObj [(''base'', JStr ''main''), (''limit'', JNum (NInt 20))])
     = Inr ''pr list --base main --limit 20''
   \<and> view_pr_command failing_env (JObj [(''number'', JNum (NInt 42))]) = Inr ''pr view 42''
   \<and> comment_pr_command failing_env (JObj [(''number'', JNum (NInt 7)), (''body'', JStr ''ok'')])
     = Inr ''pr comment 7 --body \"ok\"''
   \<and> Number_toString failing_env (NInt 42) = decimal 42"
proof -
  note t = command_templates [where env = failing_env]
  have a: "create_pr_command failing_env
     (JObj [(''title'', JStr ''Add X''), (''body'', JStr ''Why''), (''draft'', JBool True)])
     = Inr ''pr create --title \"Add X\" --body \"Why\" --draft''"
    using t [where args = "JObj [(''title'', JStr ''Add X''), (''body'', JStr ''Why''),
                                  (''draft'', JBool True)]" and i = 0]
    by (simp add: isValidCreatePrArgs_def test_Inr field_def)
  have b: "list_prs_command failing_env (JObj [(''base'', JStr ''main''), (''limit'', JNum (NInt 20))])
     = Inr ''pr list --base main --limit 20''"
    using t [where args = "JObj [(''base'', JStr ''main''), (''limit'', JNum (NInt 20))]" and i = 0]
    by (simp add: isValidListPrArgs_def test_Inr field_def decimal_def digits.simps digit_char_def)
  have c: "view_pr_command failing_env (JObj [(''number'', JNum (NInt 42))]) = Inr ''pr view 42''"
    using t [where args = "JObj [(''number'', JNum (NInt 42))]" and i = 0]
    by (simp add: isValidViewPrArgs_def test_Inr decimal_def digits.simps digit_char_def)
  have d: "comment_pr_command failing_env (JObj [(''number'', JNum (NInt 7)), (''body'', JStr ''ok'')])
     = Inr ''pr comment 7 --body \"ok\"''"
    using t [where args = "JObj [(''number'', JNum (NInt 7)), (''body'', JStr ''ok'')]" and i = 0]
    by (simp add: isValidCommentPrArgs_def test_Inr decimal_def digits.simps digit_char_def)
  have e: "Number_toString failing_env (NInt 42) = decimal 42"
    using t [where args = JNull and i = 42] by simp
  from a b c d e show ?thesis by simp
qed

text \<open>
  C5. The validator of \<^verbatim>\<open>list_prs\<close> answers false whenever \<^verbatim>\<open>state\<close> is present and
  is not one of the strings open, closed, merged, all; it answers true for each of the
  four when \<^verbatim>\<open>base\<close> and \<^verbatim>\<open>limit\<close> are absent or of their types.
\<close>

theorem list_prs_state_enum:
  "(get_prop args ''state'' = Inr v \<and> v \<noteq> JUndefined
      \<and> v \<notin> {JStr ''open'', JStr ''closed'', JStr ''merged'', JStr ''all''}
     \<longrightarrow> isValidListPrArgs args = Inr False)
   \<and> (is_object args
      \<and> get_prop args ''state'' = Inr s
      \<and> s \<in> {JStr ''open'', JStr ''closed'', JStr ''merged'', JStr ''all''}
      \<and> get_prop args ''base'' = Inr b \<and> (b = JUndefined \<or> typeof b = ''string'')
      \<and> get_prop args ''limit'' = Inr l \<and> (l = JUndefined \<or> typeof l = ''number'')
     \<longrightarrow> isValidListPrArgs args = Inr True)"
proof (intro conjI impI)
  assume a: "get_prop args ''state'' = Inr v \<and> v \<noteq> JUndefined
      \<and> v \<notin> {JStr ''open'', JStr ''closed'', JStr ''merged'', JStr ''all''}"
  then have f: "field args ''state'' = v" by (simp add: field_eq)
  from a have "\<not> Array_includes [''open'', ''closed'', ''merged'', ''all''] v"
    by (cases v) auto
  with a f show "isValidListPrArgs args = Inr False"
    by (simp add: isValidListPrArgs_eq)
next
  assume a: "is_object args
      \<and> get_prop args ''state'' = Inr s
      \<and> s \<in> {JStr ''open'', JStr ''closed'', JStr ''merged'', JStr ''all''}
      \<and> get_prop args ''base'' = Inr b \<and> (b = JUndefined \<or> typeof b = ''string'')
      \<and> get_prop args ''limit'' = Inr l \<and> (l = JUndefined \<or> typeof l = ''number'')"
  then have f: "field args ''state'' = s" "field args ''base'' = b" "field args ''limit'' = l"
    by (simp_all add: field_eq)
  from a have "Array_includes [''open'', ''closed'', ''merged'', ''all''] s"
    by auto
  with a f show "isValidListPrArgs args = Inr True"
    by (simp add: isValidListPrArgs_eq)
qed

theorem list_prs_state_enum_witness:
  "isValidListPrArgs (JObj [(''state'', JStr ''draft'')]) = Inr False
   \<and> isValidListPrArgs (JObj [(''state'', JNum (NInt 1))]) = Inr False
   \<and> isValidListPrArgs (JObj [(''state'', JStr ''open'')]) = Inr True
   \<and> isValidListPrArgs (JObj [(''state'', JStr ''closed''), (''base'', JStr ''main'')]) = Inr True
   \<and> isValidListPrArgs (JObj [(''state'', JStr ''merged''), (''limit'', JNum (NInt 5))]) = Inr True
   \<and> isValidListPrArgs (JObj [(''state'', JStr ''all'')]) = Inr True"
  using list_prs_state_enum [where args = "JObj [(''state'', JStr ''draft'')]" and v = "JStr ''draft''"]
    list_prs_state_enum [where args = "JObj [(''state'', JNum (NInt 1))]" and v = "JNum (NInt 1)"]
    list_prs_state_enum [where args = "JObj [(''state'', JStr ''open'')]" and s = "JStr ''open''"
      and b = JUndefined and l = JUndefined]
    list_prs_state_enum [where args = "JObj [(''state'', JStr ''closed''), (''base'', JStr ''main'')]"
      and s = "JStr ''closed''" and b = "JStr ''main''" and l = JUndefined]
    list_prs_state_enum [where args = "JObj [(''state'', JStr ''merged''), (''limit'', JNum (NInt 5))]"
      and s = "JStr ''merged''" and b = JUndefined and l = "JNum (NInt 5)"]
    list_prs_state_enum [where args = "JObj [(''state'', JStr ''all'')]" and s = "JStr ''all''"
      and b = JUndefined and l = JUndefined]
  by (simp add: is_object_def)

text \<open>
  C6. The validators of \<^verbatim>\<open>view_pr\<close> and \<^verbatim>\<open>comment_pr\<close> answer true exactly when
  \<^verbatim>\<open>number\<close> is a positive integer (and, for \<^verbatim>\<open>comment_pr\<close>, \<^verbatim>\<open>body\<close> is a
  string); a number that is zero or negative, a Number that is not an integer, and a
  value that is not a Number are all answered with false.
\<close>

theorem number_positive_integer:
  "isValidViewPrArgs args =
     Inr (is_object args \<and> (\<exists>n. 0 < n \<and> get_prop args ''number'' = Inr (JNum (NInt n))))
   \<and> isValidCommentPrArgs args =
     Inr (is_object args \<and> (\<exists>n. 0 < n \<and> get_prop args ''number'' = Inr (JNum (NInt n)))
          \<and> (\<exists>s. get_prop args ''body'' = Inr (JStr s)))
   \<and> (get_prop args ''number'' = Inr (JNum (NInt i)) \<and> i \<le> 0
        \<longrightarrow> isValidViewPrArgs args = Inr False \<and> isValidCommentPrArgs args = Inr False)
   \<and> (get_prop args ''number'' = Inr (JNum x) \<and> x \<notin> range NInt
        \<longrightarrow> isValidViewPrArgs args = Inr False \<and> isValidCommentPrArgs args = Inr False)
   \<and> (get_prop args ''number'' = Inr v \<and> typeof v \<noteq> ''number''
        \<longrightarrow> isValidViewPrArgs args = Inr False \<and> isValidCommentPrArgs args = Inr False)"
proof -
  have pos: "(typeof (field args ''number'') = ''number'' \<and> Number_isInteger (field args ''number'')
              \<and> greater_than_zero (field args ''number''))
             = (\<exists>n. 0 < n \<and> field args ''number'' = JNum (NInt n))"
    by (rule positive_integer)
  have view: "isValidViewPrArgs args =
     Inr (is_object args \<and> (\<exists>n. 0 < n \<and> get_prop args ''number'' = Inr (JNum (NInt n))))"
    using pos by (auto simp: isValidViewPrArgs_eq get_prop_field)
  have comment: "isValidCommentPrArgs args =
     Inr (is_object args \<and> (\<exists>n. 0 < n \<and> get_prop args ''number'' = Inr (JNum (NInt n)))
          \<and> (\<exists>s. get_prop args ''body'' = Inr (JStr s)))"
    using pos by (auto simp: isValidCommentPrArgs_eq get_prop_field typeof_string)
  have nonpos: "get_prop args ''number'' = Inr (JNum (NInt i)) \<and> i \<le> 0
        \<longrightarrow> isValidViewPrArgs args = Inr False \<and> isValidCommentPrArgs args = Inr False"
    by (auto simp: view comment)
  have nonint: "get_prop args ''number'' = Inr (JNum x) \<and> x \<notin> range NInt
        \<longrightarrow> isValidViewPrArgs args = Inr False \<and> isValidCommentPrArgs args = Inr False"
    by (auto simp: view comment)
  have nonnum: "get_prop args ''number'' = Inr v \<and> typeof v \<noteq> ''number''
        \<longrightarrow> isValidViewPrArgs args = Inr False \<and> isValidCommentPrArgs args = Inr False"
    by (auto simp: view comment)
  from view comment nonpos nonint nonnum show ?thesis by blast
qed

theorem number_positive_integer_witness:
  "isValidViewPrArgs (JObj [(''number'', JNum (NInt 7))]) = Inr True
   \<and> isValidCommentPrArgs (JObj [(''number'', JNum (NInt 7)), (''body'', JStr ''ok'')]) = Inr True
   \<and> isValidViewPrArgs (JObj [(''number'', JNum (NInt 0))]) = Inr False
   \<and> isValidCommentPrArgs (JObj [(''number'', JNum (NInt (- 3))), (''body'', JStr ''ok'')]) = Inr False
   \<and> isValidViewPrArgs (JObj [(''number'', JNum (NFrac (3 / 2)))]) = Inr False
   \<and> isValidCommentPrArgs (JObj [(''number'', JNum NPosInf), (''body'', JStr ''ok'')]) = Inr False
   \<and> isValidViewPrArgs (JObj [(''number'', JStr ''7'')]) = Inr False
   \<and> isValidCommentPrArgs (JObj [(''number'', JStr ''7''), (''body'', JStr ''ok'')]) = Inr False"
  using number_positive_integer [where args = "JObj [(''number'', JNum (NInt 7))]"]
    number_positive_integer [where args = "JObj [(''number'', JNum (NInt 7)), (''body'', JStr ''ok'')]"]
    number_positive_integer [where args = "JObj [(''number'', JNum (NInt 0))]" and i = 0]
    number_positive_integer [where args = "JObj [(''number'', JNum (NInt (- 3))), (''body'', JStr ''ok'')]"
      and i = "- 3"]
    number_positive_integer [where args = "JObj [(''number'', JNum (NFrac (3 / 2)))]"
      and x = "NFrac (3 / 2)"]
    number_positive_integer [where args = "JObj [(''number'', JNum NPosInf), (''body'', JStr ''ok'')]"
      and x = NPosInf]
    number_positive_integer [where args = "JObj [(''number'', JStr ''7'')]" and v = "JStr ''7''"]
    number_positive_integer [where args = "JObj [(''number'', JStr ''7''), (''body'', JStr ''ok'')]"
      and v = "JStr ''7''"]
  by (simp add: is_object_def image_iff)

text \<open>
  C7. A tool name outside create_pr, list_prs, view_pr, comment_pr makes the handler throw
  an \<^verbatim>\<open>McpError\<close> with code MethodNotFound that names the tool, whatever the arguments
  and the environment are: no reply is returned and no command is run.
\<close>

theorem unknown_tool_method_not_found:
  "name params \<notin> {''create_pr'', ''list_prs'', ''view_pr'', ''comment_pr''} \<Longrightarrow>
   callTool env params = ([], Inl (McpError MethodNotFound (''Unknown tool: '' @ name params)))"
  by (simp add: callTool_def)

theorem unknown_tool_method_not_found_witness:
  "callTool failing_env \<lparr>name = ''merge_pr'', arguments = JObj [(''number'', JNum (NInt 1))]\<rparr>
     = ([], Inl (McpError MethodNotFound ''Unknown tool: merge_pr''))"
  using unknown_tool_method_not_found
    [where params = "\<lparr>name = ''merge_pr'', arguments = JObj [(''number'', JNum (NInt 1))]\<rparr>"
       and env = failing_env]
  by simp

text \<open>
  C8. Every validator returns a boolean for every input and never throws; a required
  field that is missing or of the wrong type, and an optional field of the wrong type,
  give false.
\<close>

theorem validators_total:
  "(\<exists>b. isValidCreatePrArgs args = Inr b) \<and> (\<exists>b. isValidListPrArgs args = Inr b)
   \<and> (\<exists>b. isValidViewPrArgs args = Inr b) \<and> (\<exists>b. isValidCommentPrArgs args = Inr b)
   \<and> ((\<forall>t. get_prop args ''title'' \<noteq> Inr (JStr t)) \<longrightarrow> isValidCreatePrArgs args = Inr False)
   \<and> ((\<forall>x. get_prop args ''number'' \<noteq> Inr (JNum x))
        \<longrightarrow> isValidViewPrArgs args = Inr False \<and> isValidCommentPrArgs args = Inr False)
   \<and> ((\<forall>s. get_prop args ''body'' \<noteq> Inr (JStr s)) \<longrightarrow> isValidCommentPrArgs args = Inr False)
   \<and> (k \<in> {''body'', ''base'', ''head''} \<and> get_prop args k = Inr v \<and> v \<noteq> JUndefined
        \<and> typeof v \<noteq> ''string'' \<longrightarrow> isValidCreatePrArgs args = Inr False)
   \<and> (get_prop args ''draft'' = Inr v \<and> v \<noteq> JUndefined \<and> typeof v \<noteq> ''boolean''
        \<longrightarrow> isValidCreatePrArgs args = Inr False)
   \<and> (get_prop args ''base'' = Inr v \<and> v \<noteq> JUndefined \<and> typeof v \<noteq> ''string''
        \<longrightarrow> isValidListPrArgs args = Inr False)
   \<and> (get_prop args ''limit'' = Inr v \<and> v \<noteq> JUndefined \<and> typeof v \<noteq> ''number''
        \<longrightarrow> isValidListPrArgs args = Inr False)"
proof -
  have total: "(\<exists>b. isValidCreatePrArgs args = Inr b) \<and> (\<exists>b. isValidListPrArgs args = Inr b)
     \<and> (\<exists>b. isValidViewPrArgs args = Inr b) \<and> (\<exists>b. isValidCommentPrArgs args = Inr b)"
    by (simp add: isValidCreatePrArgs_eq isValidListPrArgs_eq isValidViewPrArgs_eq
        isValidCommentPrArgs_eq)
  have title: "(\<forall>t. get_prop args ''title'' \<noteq> Inr (JStr t)) \<longrightarrow> isValidCreatePrArgs args = Inr False"
    by (auto simp: isValidCreatePrArgs_eq typeof_string get_prop_field)
  have number: "(\<forall>x. get_prop args ''number'' \<noteq> Inr (JNum x))
        \<longrightarrow> isValidViewPrArgs args = Inr False \<and> isValidCommentPrArgs args = Inr False"
    by (auto simp: isValidViewPrArgs_eq isValidCommentPrArgs_eq typeof_number get_prop_field)
  have body: "(\<forall>s. get_prop args ''body'' \<noteq> Inr (JStr s)) \<longrightarrow> isValidCommentPrArgs args = Inr False"
    by (auto simp: isValidCommentPrArgs_eq typeof_string get_prop_field)
  have opt: "k \<in> {''body'', ''base'', ''head''} \<and> get_prop args k = Inr v \<and> v \<noteq> JUndefined
        \<and> typeof v \<noteq> ''string'' \<longrightarrow> isValidCreatePrArgs args = Inr False"
    by (auto simp: isValidCreatePrArgs_eq dest: field_eq)
  have draft: "get_prop args ''draft'' = Inr v \<and> v \<noteq> JUndefined \<and> typeof v \<noteq> ''boolean''
        \<longrightarrow> isValidCreatePrArgs args = Inr False"
    by (auto simp: isValidCreatePrArgs_eq dest: field_eq)
  have base: "get_prop args ''base'' = Inr v \<and> v \<noteq> JUndefined \<and> typeof v \<noteq> ''string''
        \<longrightarrow> isValidListPrArgs args = Inr False"
    by (auto simp: isValidListPrArgs_eq dest: field_eq)
  have limit: "get_prop args ''limit'' = Inr v \<and> v \<noteq> JUndefined \<and> typeof v \<noteq> ''number''
        \<longrightarrow> isValidListPrArgs args = Inr False"
    by (auto simp: isValidListPrArgs_eq dest: field_eq)
  from total title number body opt draft base limit show ?thesis by blast
qed

theorem validators_total_witness:
  "isValidCreatePrArgs JNull = Inr False \<and> isValidListPrArgs JNull = Inr False
   \<and> isValidViewPrArgs JUndefined = Inr False \<and> isValidCommentPrArgs (JNum (NInt 3)) = Inr False
   \<and> isValidCreatePrArgs (JObj []) = Inr False
   \<and> isValidCreatePrArgs (JObj [(''title'', JNum (NInt 1))]) = Inr False
   \<and> isValidViewPrArgs (JObj [(''number'', JStr ''12'')]) = Inr False
   \<and> isValidCommentPrArgs (JObj [(''number'', JNum (NInt 12))]) = Inr False
   \<and> isValidCreatePrArgs (JObj [(''title'', JStr ''t''), (''base'', JBool True)]) = Inr False
   \<and> isValidCreatePrArgs (JObj [(''title'', JStr ''t''), (''draft'', JStr ''yes'')]) = Inr False
   \<and> isValidListPrArgs (JObj [(''base'', JNum (NInt 1))]) = Inr False
   \<and> isValidListPrArgs (JObj [(''limit'', JStr ''5'')]) = Inr False"
proof -
  have a: "isValidCreatePrArgs JNull = Inr False"
    using validators_total [where args = JNull and k = "''body''" and v = JUndefined] by simp
  have b: "isValidListPrArgs JNull = Inr False"
    using validators_total [where args = JNull and k = "''body''" and v = JUndefined]
    by (simp add: isValidListPrArgs_def)
  have c: "isValidViewPrArgs JUndefined = Inr False"
    using validators_total [where args = JUndefined and k = "''body''" and v = JUndefined] by simp
  have d: "isValidCommentPrArgs (JNum (NInt 3)) = Inr False"
    using validators_total [where args = "JNum (NInt 3)" and k = "''body''" and v = JUndefined]
    by simp
  have e: "isValidCreatePrArgs (JObj []) = Inr False"
    using validators_total [where args = "JObj []" and k = "''body''" and v = JUndefined] by simp
  have f: "isValidCreatePrArgs (JObj [(''title'', JNum (NInt 1))]) = Inr False"
    using validators_total [where args = "JObj [(''title'', JNum (NInt 1))]" and k = "''body''"
        and v = JUndefined]
    by simp
  have g: "isValidViewPrArgs (JObj [(''number'', JStr ''12'')]) = Inr False"
    using validators_total [where args = "JObj [(''number'', JStr ''12'')]" and k = "''body''"
        and v = JUndefined]
    by simp
  have h: "isValidCommentPrArgs (JObj [(''number'', JNum (NInt 12))]) = Inr False"
    using validators_total [where args = "JObj [(''number'', JNum (NInt 12))]" and k = "''body''"
        and v = JUndefined]
    by simp
  have i: "isValidCreatePrArgs (JObj [(''title'', JStr ''t''), (''base'', JBool True)]) = Inr False"
    using validators_total [where args = "JObj [(''title'', JStr ''t''), (''base'', JBool True)]"
        and k = "''base''" and v = "JBool True"]
    by simp
  have j: "isValidCreatePrArgs (JObj [(''title'', JStr ''t''), (''draft'', JStr ''yes'')]) = Inr False"
    using validators_total [where args = "JObj [(''title'', JStr ''t''), (''draft'', JStr ''yes'')]"
        and k = "''body''" and v = "JStr ''yes''"]
    by simp
  have k: "isValidListPrArgs (JObj [(''base'', JNum (NInt 1))]) = Inr False"
    using validators_total [where args = "JObj [(''base'', JNum (NInt 1))]" and k = "''body''"
        and v = "JNum (NInt 1)"]
    by simp
  have l: "isValidListPrArgs (JObj [(''limit'', JStr ''5'')]) = Inr False"
    using validators_total [where args = "JObj [(''limit'', JStr ''5'')]" and k = "''body''"
        and v = "JStr ''5''"]
    by simp
  from a b c d e f g h i j k l show ?thesis by simp
qed



text \<open>
  C9. As stated (with an empty \<^verbatim>\<open>body\<close> the command holds no \<^verbatim>\<open>--body\<close> flag, with a
  \<^verbatim>\<open>limit\<close> of zero no \<^verbatim>\<open>--limit\<close> flag) the property fails: the texts are copied
  without escaping, so a title that closes its quote and a base that holds a blank carry
  the flag into the command, which is then the very command built from a non-empty
  \<^verbatim>\<open>body\<close>.
\<close>

theorem injected_flag_counterexample:
  "isValidCreatePrArgs (JObj [(''title'', JStr ''x\" --body \"y''), (''body'', JStr '''')]) = Inr True
   \<and> get_prop (JObj [(''title'', JStr ''x\" --body \"y''), (''body'', JStr '''')]) ''body''
       = Inr (JStr '''')
   \<and> create_pr_command failing_env (JObj [(''title'', JStr ''x\" --body \"y''), (''body'', JStr '''')])
       = Inr ''pr create --title \"x\" --body \"y\"''
   \<and> create_pr_command failing_env (JObj [(''title'', JStr ''x''), (''body'', JStr ''y'')])
       = Inr ''pr create --title \"x\" --body \"y\"''
   \<and> occurrences ''--body'' ''pr create --title \"x\" --body \"y\"'' = 1
   \<and> isValidListPrArgs (JObj [(''base'', JStr ''main --limit 1000''), (''limit'', JNum (NInt 0))])
       = Inr True
   \<and> get_prop (JObj [(''base'', JStr ''main --limit 1000''), (''limit'', JNum (NInt 0))]) ''limit''
       = Inr (JNum (NInt 0))
   \<and> list_prs_command failing_env
        (JObj [(''base'', JStr ''main --limit 1000''), (''limit'', JNum (NInt 0))])
       = Inr ''pr list --base main --limit 1000''
   \<and> occurrences ''--limit'' ''pr list --base main --limit 1000'' = 1"
  by (simp add: isValidCreatePrArgs_def isValidListPrArgs_def test_Inr
      create_pr_command_def list_prs_command_def bindE_Inr)

text \<open>
  C9, amended. The optional flags depend on the value being truthy: for an empty
  \<^verbatim>\<open>body\<close> of \<^verbatim>\<open>create_pr\<close> and a \<^verbatim>\<open>limit\<close> of zero of \<^verbatim>\<open>list_prs\<close> the builder
  appends no flag, so the command is the beginning followed by the other flags only, and
  it holds no occurrence of \<^verbatim>\<open>--body\<close> when title, base and head do not contain that
  text, and no occurrence of \<^verbatim>\<open>--limit\<close> when base does not contain that text.
  \<^verbatim>\<open>comment_pr\<close> always writes its \<^verbatim>\<open>--body\<close>, with two double quotes and nothing
  between them for the empty body.
\<close>

theorem falsy_optional_omitted:
  "(isValidCreatePrArgs args = Inr True \<and> get_prop args ''body'' = Inr (JStr [])
      \<longrightarrow> create_pr_command env args =
            Inr (''pr create --title \"'' @ str_of (field args ''title'') @ ''\"''
                 @ (if str_of (field args ''base'') \<noteq> []
                    then '' --base \"'' @ str_of (field args ''base'') @ ''\"'' else [])
                 @ (if str_of (field args ''head'') \<noteq> []
                    then '' --head \"'' @ str_of (field args ''head'') @ ''\"'' else [])
                 @ (if field args ''draft'' = JBool True then '' --draft'' else [])))
   \<and> (isValidCreatePrArgs args = Inr True \<and> get_prop args ''body'' = Inr (JStr [])
        \<and> (\<forall>k \<in> {''title'', ''base'', ''head''}. occurrences ''--body'' (str_of (field args k)) = 0)
      \<longrightarrow> (\<exists>cmd. create_pr_command env args = Inr cmd \<and> occurrences ''--body'' cmd = 0))
   \<and> (isValidListPrArgs args = Inr True
        \<and> (get_prop args ''limit'' = Inr (JNum (NInt 0)) \<or> get_prop args ''limit'' = Inr (JNum NNegZero))
      \<longrightarrow> list_prs_command env args =
            Inr (''pr list''
                 @ (if str_of (field args ''state'') \<noteq> []
                    then '' --state '' @ str_of (field args ''state'') else [])
                 @ (if str_of (field args ''base'') \<noteq> []
                    then '' --base '' @ str_of (field args ''base'') else [])))
   \<and> (isValidListPrArgs args = Inr True
        \<and> (get_prop args ''limit'' = Inr (JNum (NInt 0)) \<or> get_prop args ''limit'' = Inr (JNum NNegZero))
        \<and> occurrences ''--limit'' (str_of (field args ''base'')) = 0
      \<longrightarrow> (\<exists>cmd. list_prs_command env args = Inr cmd \<and> occurrences ''--limit'' cmd = 0))
   \<and> (isValidCommentPrArgs args = Inr True \<and> get_prop args ''body'' = Inr (JStr [])
      \<longrightarrow> (\<exists>n. 0 < n \<and> get_prop args ''number'' = Inr (JNum (NInt n))
             \<and> comment_pr_command env args =
                 Inr (''pr comment '' @ Number_toString env (NInt n) @ '' --body \"\"'')))"
proof (intro conjI impI)
  assume a: "isValidCreatePrArgs args = Inr True \<and> get_prop args ''body'' = Inr (JStr [])"
  then have "field args ''body'' = JStr []" by (simp add: field_eq)
  with a show "create_pr_command env args =
            Inr (''pr create --title \"'' @ str_of (field args ''title'') @ ''\"''
                 @ (if str_of (field args ''base'') \<noteq> []
                    then '' --base \"'' @ str_of (field args ''base'') @ ''\"'' else [])
                 @ (if str_of (field args ''head'') \<noteq> []
                    then '' --head \"'' @ str_of (field args ''head'') @ ''\"'' else [])
                 @ (if field args ''draft'' = JBool True then '' --draft'' else []))"
    by (simp add: create_pr_command_valid)
next
  assume a: "isValidCreatePrArgs args = Inr True \<and> get_prop args ''body'' = Inr (JStr [])
        \<and> (\<forall>k \<in> {''title'', ''base'', ''head''}. occurrences ''--body'' (str_of (field args k)) = 0)"
  then have valid: "isValidCreatePrArgs args = Inr True"
    and b: "field args ''body'' = JStr []"
    and c: "\<forall>k \<in> {''title'', ''base'', ''head''}. occurrences ''--body'' (str_of (field args k)) = 0"
    by (simp_all add: field_eq)
  from b c have clean: "\<forall>k \<in> {''title'', ''body'', ''base'', ''head''}.
                          occurrences ''--body'' (str_of (field args k)) = 0"
    by simp
  from valid_builds(1) [OF valid, of env] obtain cmd
    where cmd: "create_pr_command env args = Inr cmd" ..
  from create_flag_count [OF valid _ clean cmd] b have "occurrences ''--body'' cmd = 0"
    by simp
  with cmd show "\<exists>cmd. create_pr_command env args = Inr cmd \<and> occurrences ''--body'' cmd = 0"
    by blast
next
  assume a: "isValidListPrArgs args = Inr True
        \<and> (get_prop args ''limit'' = Inr (JNum (NInt 0)) \<or> get_prop args ''limit'' = Inr (JNum NNegZero))"
  then have "field args ''limit'' = JNum (NInt 0) \<or> field args ''limit'' = JNum NNegZero"
    by (auto simp: field_eq)
  then have "\<not> truthy (field args ''limit'')" by auto
  with a show "list_prs_command env args =
            Inr (''pr list''
                 @ (if str_of (field args ''state'') \<noteq> []
                    then '' --state '' @ str_of (field args ''state'') else [])
                 @ (if str_of (field args ''base'') \<noteq> []
                    then '' --base '' @ str_of (field args ''base'') else []))"
    by (simp add: list_prs_command_valid)
next
  assume a: "isValidListPrArgs args = Inr True
        \<and> (get_prop args ''limit'' = Inr (JNum (NInt 0)) \<or> get_prop args ''limit'' = Inr (JNum NNegZero))
        \<and> occurrences ''--limit'' (str_of (field args ''base'')) = 0"
  then have valid: "isValidListPrArgs args = Inr True"
    and l: "field args ''limit'' = JNum (NInt 0) \<or> field args ''limit'' = JNum NNegZero"
    and clean: "occurrences ''--limit'' (str_of (field args ''base'')) = 0"
    by (auto simp: field_eq)
  from l have rt: "\<forall>x. field args ''limit'' = JNum x
                  \<and> (x \<in> range NFrac \<or> (\<exists>i. x = NInt i \<and> 2 ^ 53 \<le> \<bar>i\<bar>))
                 \<longrightarrow> occurrences ''--limit'' (Number_dtoa env x) = 0"
    by auto
  from valid_builds(2) [OF valid, of env] obtain cmd
    where cmd: "list_prs_command env args = Inr cmd" ..
  from list_flag_count [OF valid _ clean rt cmd] l have "occurrences ''--limit'' cmd = 0"
    by auto
  with cmd show "\<exists>cmd. list_prs_command env args = Inr cmd \<and> occurrences ''--limit'' cmd = 0"
    by blast
next
  assume a: "isValidCommentPrArgs args = Inr True \<and> get_prop args ''body'' = Inr (JStr [])"
  with comment_pr_command_valid [of args env]
  show "\<exists>n. 0 < n \<and> get_prop args ''number'' = Inr (JNum (NInt n))
             \<and> comment_pr_command env args =
                 Inr (''pr comment '' @ Number_toString env (NInt n) @ '' --body \"\"'')"
    by auto
qed

theorem falsy_optional_omitted_witness:
  "create_pr_command failing_env (JObj [(''title'', JStr ''t''), (''body'', JStr ''''), (''draft'', JBool True)])
     = Inr ''pr create --title \"t\" --draft''
   \<and> (\<exists>cmd. create_pr_command failing_env
               (JObj [(''title'', JStr ''t''), (''body'', JStr ''''), (''draft'', JBool True)]) = Inr cmd
            \<and> occurrences ''--body'' cmd = 0)
   \<and> list_prs_command failing_env (JObj [(''state'', JStr ''all''), (''limit'', JNum (NInt 0))])
     = Inr ''pr list --state all''
   \<and> (\<exists>cmd. list_prs_command failing_env (JObj [(''state'', JStr ''all''), (''limit'', JNum (NInt 0))])
               = Inr cmd
            \<and> occurrences ''--limit'' cmd = 0)
   \<and> comment_pr_command failing_env (JObj [(''number'', JNum (NInt 12)), (''body'', JStr '''')])
     = Inr ''pr comment 12 --body \"\"''"
proof -
  note t = falsy_optional_omitted [where env = failing_env]
  let ?a = "JObj [(''title'', JStr ''t''), (''body'', JStr ''''), (''draft'', JBool True)]"
  let ?l = "JObj [(''state'', JStr ''all''), (''limit'', JNum (NInt 0))]"
  have va: "isValidCreatePrArgs ?a = Inr True"
    by (simp add: isValidCreatePrArgs_def test_Inr)
  have vl: "isValidListPrArgs ?l = Inr True"
    by (simp add: isValidListPrArgs_def test_Inr)
  have a: "create_pr_command failing_env ?a = Inr ''pr create --title \"t\" --draft''"
    using t [where args = ?a] va by (simp add: field_def)
  have a': "\<exists>cmd. create_pr_command failing_env ?a = Inr cmd \<and> occurrences ''--body'' cmd = 0"
    using t [where args = ?a] va by (simp add: field_def)
  have b: "list_prs_command failing_env ?l = Inr ''pr list --state all''"
    using t [where args = ?l] vl by (simp add: field_def image_iff)
  have b': "\<exists>cmd. list_prs_command failing_env ?l = Inr cmd \<and> occurrences ''--limit'' cmd = 0"
    using t [where args = ?l] vl by (simp add: field_def image_iff)
  have c: "comment_pr_command failing_env (JObj [(''number'', JNum (NInt 12)), (''body'', JStr '''')])
     = Inr ''pr comment 12 --body \"\"''"
    using t [where args = "JObj [(''number'', JNum (NInt 12)), (''body'', JStr '''')]"]
    by (simp add: isValidCommentPrArgs_def test_Inr decimal_def digits.simps digit_char_def)
  from a a' b b' c show ?thesis by blast
qed

text \<open>
  C3. As stated (a supplied optional field always gives one occurrence of its flag) the
  property fails: an empty \<^verbatim>\<open>body\<close> and a \<^verbatim>\<open>limit\<close> of zero are supplied with their
  declared types and leave no flag in the command.
\<close>

theorem supplied_falsy_field_counterexample:
  "isValidCreatePrArgs (JObj [(''title'', JStr ''t''), (''body'', JStr '''')]) = Inr True
   \<and> get_prop (JObj [(''title'', JStr ''t''), (''body'', JStr '''')]) ''body'' = Inr (JStr '''')
   \<and> typeof (JStr '''') = ''string''
   \<and> create_pr_command failing_env (JObj [(''title'', JStr ''t''), (''body'', JStr '''')])
       = Inr ''pr create --title \"t\"''
   \<and> occurrences ''--body'' ''pr create --title \"t\"'' = 0
   \<and> isValidListPrArgs (JObj [(''limit'', JNum (NInt 0))]) = Inr True
   \<and> get_prop (JObj [(''limit'', JNum (NInt 0))]) ''limit'' = Inr (JNum (NInt 0))
   \<and> typeof (JNum (NInt 0)) = ''number''
   \<and> list_prs_command failing_env (JObj [(''limit'', JNum (NInt 0))]) = Inr ''pr list''
   \<and> occurrences ''--limit'' ''pr list'' = 0"
  by (simp add: isValidCreatePrArgs_def isValidListPrArgs_def test_Inr
      create_pr_command_def list_prs_command_def bindE_Inr)

text \<open>
  C3, amended. For validated arguments the builders of \<^verbatim>\<open>create_pr\<close> and \<^verbatim>\<open>list_prs\<close>
  append nothing for an optional field that is absent or falsy (the empty string,
  \<^verbatim>\<open>false\<close>, zero, NaN) and the flag of every other optional field once, in the order of
  the template. Counted on the text of the command, a flag occurs not at all in the first
  case and exactly once in the second, provided no supplied text (title, body, base and
  head of \<^verbatim>\<open>create_pr\<close>, base of \<^verbatim>\<open>list_prs\<close>) contains the text of that flag and,
  for a \<^verbatim>\<open>limit\<close> that is not an integer below \<open>2\<^sup>5\<^sup>3\<close> in magnitude, the text that
  the runtime prints for it does not contain it either.
\<close>

theorem optional_flag_occurrences:
  "(isValidCreatePrArgs args = Inr True
     \<longrightarrow> create_pr_command env args =
           Inr (''pr create --title \"'' @ str_of (field args ''title'') @ ''\"''
                @ (if str_of (field args ''body'') = [] then []
                   else '' --body \"'' @ str_of (field args ''body'') @ ''\"'')
                @ (if str_of (field args ''base'') = [] then []
                   else '' --base \"'' @ str_of (field args ''base'') @ ''\"'')
                @ (if str_of (field args ''head'') = [] then []
                   else '' --head \"'' @ str_of (field args ''head'') @ ''\"'')
                @ (if field args ''draft'' = JBool True then '' --draft'' else [])))
   \<and> (isValidListPrArgs args = Inr True
     \<longrightarrow> list_prs_command env args =
           Inr (''pr list''
                @ (if field args ''state'' = JUndefined then []
                   else '' --state '' @ str_of (field args ''state''))
                @ (if str_of (field args ''base'') = [] then []
                   else '' --base '' @ str_of (field args ''base''))
                @ (if field args ''limit'' \<in> {JUndefined, JNum (NInt 0), JNum NNegZero, JNum NNaN}
                   then [] else '' --limit '' @ ToString env (field args ''limit''))))
   \<and> (isValidCreatePrArgs args = Inr True
      \<and> (k, flag) \<in> {(''body'', ''--body''), (''base'', ''--base''), (''head'', ''--head'')}
      \<and> (\<forall>j \<in> {''title'', ''body'', ''base'', ''head''}.
            occurrences flag (str_of (field args j)) = 0)
     \<longrightarrow> (\<exists>cmd. create_pr_command env args = Inr cmd
            \<and> occurrences flag cmd = (if str_of (field args k) = [] then 0 else 1)))
   \<and> (isValidCreatePrArgs args = Inr True
      \<and> (\<forall>j \<in> {''title'', ''body'', ''base'', ''head''}.
            occurrences ''--draft'' (str_of (field args j)) = 0)
     \<longrightarrow> (\<exists>cmd. create_pr_command env args = Inr cmd
            \<and> occurrences ''--draft'' cmd = (if field args ''draft'' = JBool True then 1 else 0)))
   \<and> (isValidListPrArgs args = Inr True
      \<and> occurrences ''--state'' (str_of (field args ''base'')) = 0
      \<and> (\<forall>x. field args ''limit'' = JNum x
                  \<and> (x \<in> range NFrac \<or> (\<exists>i. x = NInt i \<and> 2 ^ 53 \<le> \<bar>i\<bar>))
                 \<longrightarrow> occurrences ''--state'' (Number_dtoa env x) = 0)
     \<longrightarrow> (\<exists>cmd. list_prs_command env args = Inr cmd
            \<and> occurrences ''--state'' cmd = (if field args ''state'' = JUndefined then 0 else 1)))
   \<and> (isValidListPrArgs args = Inr True
      \<and> occurrences ''--base'' (str_of (field args ''base'')) = 0
      \<and> (\<forall>x. field args ''limit'' = JNum x
                  \<and> (x \<in> range NFrac \<or> (\<exists>i. x = NInt i \<and> 2 ^ 53 \<le> \<bar>i\<bar>))
                 \<longrightarrow> occurrences ''--base'' (Number_dtoa env x) = 0)
     \<longrightarrow> (\<exists>cmd. list_prs_command env args = Inr cmd
            \<and> occurrences ''--base'' cmd = (if str_of (field args ''base'') = [] then 0 else 1)))
   \<and> (isValidListPrArgs args = Inr True
      \<and> occurrences ''--limit'' (str_of (field args ''base'')) = 0
      \<and> (\<forall>x. field args ''limit'' = JNum x
                  \<and> (x \<in> range NFrac \<or> (\<exists>i. x = NInt i \<and> 2 ^ 53 \<le> \<bar>i\<bar>))
                 \<longrightarrow> occurrences ''--limit'' (Number_dtoa env x) = 0)
     \<longrightarrow> (\<exists>cmd. list_prs_command env args = Inr cmd
            \<and> occurrences ''--limit'' cmd = (if field args ''limit'' \<in> {JUndefined, JNum (NInt 0), JNum NNegZero, JNum NNaN}
                 then 0 else 1)))"
proof (intro conjI impI)
  assume valid: "isValidCreatePrArgs args = Inr True"
  show "create_pr_command env args =
           Inr (''pr create --title \"'' @ str_of (field args ''title'') @ ''\"''
                @ (if str_of (field args ''body'') = [] then []
                   else '' --body \"'' @ str_of (field args ''body'') @ ''\"'')
                @ (if str_of (field args ''base'') = [] then []
                   else '' --base \"'' @ str_of (field args ''base'') @ ''\"'')
                @ (if str_of (field args ''head'') = [] then []
                   else '' --head \"'' @ str_of (field args ''head'') @ ''\"'')
                @ (if field args ''draft'' = JBool True then '' --draft'' else []))"
    by (simp add: create_pr_command_valid [OF valid])
next
  assume valid: "isValidListPrArgs args = Inr True"
  then have l: "field args ''limit'' = JUndefined \<or> typeof (field args ''limit'') = ''number''"
    by (simp add: isValidListPrArgs_eq)
  have s: "(str_of (field args ''state'') \<noteq> []) = (field args ''state'' \<noteq> JUndefined)"
    using valid_state [OF valid] by auto
  show "list_prs_command env args =
           Inr (''pr list''
                @ (if field args ''state'' = JUndefined then []
                   else '' --state '' @ str_of (field args ''state''))
                @ (if str_of (field args ''base'') = [] then []
                   else '' --base '' @ str_of (field args ''base''))
                @ (if field args ''limit'' \<in> {JUndefined, JNum (NInt 0), JNum NNegZero, JNum NNaN}
                   then [] else '' --limit '' @ ToString env (field args ''limit'')))"
    using s limit_truthy [OF l] by (simp add: list_prs_command_valid [OF valid])
next
  assume a: "isValidCreatePrArgs args = Inr True
      \<and> (k, flag) \<in> {(''body'', ''--body''), (''base'', ''--base''), (''head'', ''--head'')}
      \<and> (\<forall>j \<in> {''title'', ''body'', ''base'', ''head''}.
            occurrences flag (str_of (field args j)) = 0)"
  then have valid: "isValidCreatePrArgs args = Inr True"
    and kf: "(k, flag) \<in> {(''body'', ''--body''), (''base'', ''--base''), (''head'', ''--head'')}"
    and clean: "\<forall>j \<in> {''title'', ''body'', ''base'', ''head''}.
                  occurrences flag (str_of (field args j)) = 0"
    by simp_all
  from valid_builds(1) [OF valid, of env] obtain cmd
    where cmd: "create_pr_command env args = Inr cmd" ..
  from kf have f: "flag \<in> {''--body'', ''--base'', ''--head'', ''--draft''}"
    and k: "drop 2 flag = k" "k \<in> {''body'', ''base'', ''head''}"
    by auto
  from valid k(2) have "field args k = JUndefined \<or> typeof (field args k) = ''string''"
    by (auto simp: isValidCreatePrArgs_eq)
  from text_field [OF this, of env] have "truthy (field args k) = (str_of (field args k) \<noteq> [])"
    by simp
  with create_flag_count [OF valid f clean cmd] k(1)
  have "occurrences flag cmd = (if str_of (field args k) = [] then 0 else 1)"
    by simp
  with cmd show "\<exists>cmd. create_pr_command env args = Inr cmd
            \<and> occurrences flag cmd = (if str_of (field args k) = [] then 0 else 1)"
    by blast
next
  assume a: "isValidCreatePrArgs args = Inr True
      \<and> (\<forall>j \<in> {''title'', ''body'', ''base'', ''head''}.
            occurrences ''--draft'' (str_of (field args j)) = 0)"
  then have valid: "isValidCreatePrArgs args = Inr True"
    and clean: "\<forall>j \<in> {''title'', ''body'', ''base'', ''head''}.
                  occurrences ''--draft'' (str_of (field args j)) = 0"
    by simp_all
  from valid_builds(1) [OF valid, of env] obtain cmd
    where cmd: "create_pr_command env args = Inr cmd" ..
  from valid have "field args ''draft'' = JUndefined \<or> typeof (field args ''draft'') = ''boolean''"
    by (simp add: isValidCreatePrArgs_eq)
  then have "truthy (field args ''draft'') = (field args ''draft'' = JBool True)"
    by (auto simp: typeof_boolean)
  with create_flag_count [OF valid _ clean cmd]
  have "occurrences ''--draft'' cmd = (if field args ''draft'' = JBool True then 1 else 0)"
    by simp
  with cmd show "\<exists>cmd. create_pr_command env args = Inr cmd
            \<and> occurrences ''--draft'' cmd = (if field args ''draft'' = JBool True then 1 else 0)"
    by blast
next
  assume a: "isValidListPrArgs args = Inr True
      \<and> occurrences ''--state'' (str_of (field args ''base'')) = 0
      \<and> (\<forall>x. field args ''limit'' = JNum x
                  \<and> (x \<in> range NFrac \<or> (\<exists>i. x = NInt i \<and> 2 ^ 53 \<le> \<bar>i\<bar>))
                 \<longrightarrow> occurrences ''--state'' (Number_dtoa env x) = 0)"
  then have valid: "isValidListPrArgs args = Inr True"
    and clean: "occurrences ''--state'' (str_of (field args ''base'')) = 0"
    and rt: "\<forall>x. field args ''limit'' = JNum x
                  \<and> (x \<in> range NFrac \<or> (\<exists>i. x = NInt i \<and> 2 ^ 53 \<le> \<bar>i\<bar>))
                 \<longrightarrow> occurrences ''--state'' (Number_dtoa env x) = 0"
    by simp_all
  from valid_builds(2) [OF valid, of env] obtain cmd
    where cmd: "list_prs_command env args = Inr cmd" ..
  from valid have x: "field args ''base'' = JUndefined \<or> typeof (field args ''base'') = ''string''"
    and l: "field args ''limit'' = JUndefined \<or> typeof (field args ''limit'') = ''number''"
    by (simp_all add: isValidListPrArgs_eq)
  have "occurrences ''--state'' cmd = (if field args ''state'' = JUndefined then 0 else 1)"
    using list_flag_count [OF valid _ clean rt cmd] state_truthy [OF valid] by simp
  with cmd show "\<exists>cmd. list_prs_command env args = Inr cmd
            \<and> occurrences ''--state'' cmd = (if field args ''state'' = JUndefined then 0 else 1)"
    by blast
next
  assume a: "isValidListPrArgs args = Inr True
      \<and> occurrences ''--base'' (str_of (field args ''base'')) = 0
      \<and> (\<forall>x. field args ''limit'' = JNum x
                  \<and> (x \<in> range NFrac \<or> (\<exists>i. x = NInt i \<and> 2 ^ 53 \<le> \<bar>i\<bar>))
                 \<longrightarrow> occurrences ''--base'' (Number_dtoa env x) = 0)"
  then have valid: "isValidListPrArgs args = Inr True"
    and clean: "occurrences ''--base'' (str_of (field args ''base'')) = 0"
    and rt: "\<forall>x. field args ''limit'' = JNum x
                  \<and> (x \<in> range NFrac \<or> (\<exists>i. x = NInt i \<and> 2 ^ 53 \<le> \<bar>i\<bar>))
                 \<longrightarrow> occurrences ''--base'' (Number_dtoa env x) = 0"
    by simp_all
  from valid_builds(2) [OF valid, of env] obtain cmd
    where cmd: "list_prs_command env args = Inr cmd" ..
  from valid have x: "field args ''base'' = JUndefined \<or> typeof (field args ''base'') = ''string''"
    and l: "field args ''limit'' = JUndefined \<or> typeof (field args ''limit'') = ''number''"
    by (simp_all add: isValidListPrArgs_eq)
  have "occurrences ''--base'' cmd = (if str_of (field args ''base'') = [] then 0 else 1)"
    using list_flag_count [OF valid _ clean rt cmd] text_field [OF x, of env] by simp
  with cmd show "\<exists>cmd. list_prs_command env args = Inr cmd
            \<and> occurrences ''--base'' cmd = (if str_of (field args ''base'') = [] then 0 else 1)"
    by blast
next
  assume a: "isValidListPrArgs args = Inr True
      \<and> occurrences ''--limit'' (str_of (field args ''base'')) = 0
      \<and> (\<forall>x. field args ''limit'' = JNum x
                  \<and> (x \<in> range NFrac \<or> (\<exists>i. x = NInt i \<and> 2 ^ 53 \<le> \<bar>i\<bar>))
                 \<longrightarrow> occurrences ''--limit'' (Number_dtoa env x) = 0)"
  then have valid: "isValidListPrArgs args = Inr True"
    and clean: "occurrences ''--limit'' (str_of (field args ''base'')) = 0"
    and rt: "\<forall>x. field args ''limit'' = JNum x
                  \<and> (x \<in> range NFrac \<or> (\<exists>i. x = NInt i \<and> 2 ^ 53 \<le> \<bar>i\<bar>))
                 \<longrightarrow> occurrences ''--limit'' (Number_dtoa env x) = 0"
    by simp_all
  from valid_builds(2) [OF valid, of env] obtain cmd
    where cmd: "list_prs_command env args = Inr cmd" ..
  from valid have x: "field args ''base'' = JUndefined \<or> typeof (field args ''base'') = ''string''"
    and l: "field args ''limit'' = JUndefined \<or> typeof (field args ''limit'') = ''number''"
    by (simp_all add: isValidListPrArgs_eq)
  have "occurrences ''--limit'' cmd = (if field args ''limit'' \<in> {JUndefined, JNum (NInt 0), JNum NNegZero, JNum NNaN}
                 then 0 else 1)"
    using list_flag_count [OF valid _ clean rt cmd] limit_truthy [OF l] by simp
  with cmd show "\<exists>cmd. list_prs_command env args = Inr cmd
            \<and> occurrences ''--limit'' cmd = (if field args ''limit'' \<in> {JUndefined, JNum (NInt 0), JNum NNegZero, JNum NNaN}
                 then 0 else 1)"
    by blast
qed

theorem optional_flag_occurrences_witness:
  "(\<exists>cmd. create_pr_command failing_env
             (JObj [(''title'', JStr ''fix --draft handling''), (''body'', JStr ''b'')]) = Inr cmd
          \<and> occurrences ''--body'' cmd = 1)
   \<and> (\<exists>cmd. create_pr_command failing_env
             (JObj [(''title'', JStr ''Add X''), (''body'', JStr ''Why''), (''draft'', JBool True)])
             = Inr cmd
          \<and> occurrences ''--base'' cmd = 0)
   \<and> (\<exists>cmd. create_pr_command failing_env
             (JObj [(''title'', JStr ''Add X''), (''body'', JStr ''Why''), (''draft'', JBool True)])
             = Inr cmd
          \<and> occurrences ''--draft'' cmd = 1)
   \<and> (\<exists>cmd. list_prs_command failing_env (JObj [(''state'', JStr ''open''), (''limit'', JNum (NInt 5))])
             = Inr cmd
          \<and> occurrences ''--state'' cmd = 1)
   \<and> (\<exists>cmd. list_prs_command failing_env (JObj [(''state'', JStr ''open''), (''limit'', JNum (NInt 5))])
             = Inr cmd
          \<and> occurrences ''--base'' cmd = 0)
   \<and> (\<exists>cmd. list_prs_command failing_env (JObj [(''state'', JStr ''open''), (''limit'', JNum (NInt 5))])
             = Inr cmd
          \<and> occurrences ''--limit'' cmd = 1)
   \<and> create_pr_command failing_env
        (JObj [(''title'', JStr ''Add X''), (''body'', JStr ''Why''), (''draft'', JBool True)])
       = Inr ''pr create --title \"Add X\" --body \"Why\" --draft''
   \<and> list_prs_command failing_env (JObj [(''state'', JStr ''open''), (''limit'', JNum (NInt 5))])
       = Inr ''pr list --state open --limit 5''"
proof -
  let ?r = "JObj [(''title'', JStr ''fix --draft handling''), (''body'', JStr ''b'')]"
  let ?a = "JObj [(''title'', JStr ''Add X''), (''body'', JStr ''Why''), (''draft'', JBool True)]"
  let ?l = "JObj [(''state'', JStr ''open''), (''limit'', JNum (NInt 5))]"
  note t = optional_flag_occurrences [where env = failing_env]
  have vr: "isValidCreatePrArgs ?r = Inr True"
    by (simp add: isValidCreatePrArgs_def test_Inr)
  have va: "isValidCreatePrArgs ?a = Inr True"
    by (simp add: isValidCreatePrArgs_def test_Inr)
  have vl: "isValidListPrArgs ?l = Inr True"
    by (simp add: isValidListPrArgs_def test_Inr)
  have r: "\<exists>cmd. create_pr_command failing_env ?r = Inr cmd \<and> occurrences ''--body'' cmd = 1"
    using t [where args = ?r and k = "''body''" and flag = "''--body''"] vr
    by (simp add: field_def)
  have a1: "\<exists>cmd. create_pr_command failing_env ?a = Inr cmd \<and> occurrences ''--base'' cmd = 0"
    using t [where args = ?a and k = "''base''" and flag = "''--base''"] va
    by (simp add: field_def)
  have a2: "\<exists>cmd. create_pr_command failing_env ?a = Inr cmd \<and> occurrences ''--draft'' cmd = 1"
    using t [where args = ?a and k = "''base''" and flag = "''--base''"] va
    by (simp add: field_def)
  have l1: "\<exists>cmd. list_prs_command failing_env ?l = Inr cmd \<and> occurrences ''--state'' cmd = 1"
    using t [where args = ?l and k = "''base''" and flag = "''--base''"] vl
    by (simp add: field_def image_iff decimal_def digits_small digit_char_def)
  have l2: "\<exists>cmd. list_prs_command failing_env ?l = Inr cmd \<and> occurrences ''--base'' cmd = 0"
    using t [where args = ?l and k = "''base''" and flag = "''--base''"] vl
    by (simp add: field_def image_iff decimal_def digits_small digit_char_def)
  have l3: "\<exists>cmd. list_prs_command failing_env ?l = Inr cmd \<and> occurrences ''--limit'' cmd = 1"
    using t [where args = ?l and k = "''base''" and flag = "''--base''"] vl
    by (simp add: field_def image_iff decimal_def digits_small digit_char_def)
  have c1: "create_pr_command failing_env ?a
            = Inr ''pr create --title \"Add X\" --body \"Why\" --draft''"
    using t [where args = ?a and k = "''base''" and flag = "''--base''"] va
    by (simp add: field_def)
  have c2: "list_prs_command failing_env ?l = Inr ''pr list --state open --limit 5''"
    using t [where args = ?l and k = "''base''" and flag = "''--base''"] vl
    by (simp add: field_def decimal_def digits_small digit_char_def)
  from r a1 a2 l1 l2 l3 c1 c2 show ?thesis by blast
qed

end
